theory Spec2Isabelle
  imports Main
begin

section \<open>JavaScript values the code relies on\<close>

text \<open>
  An exception is either an \<^verbatim>\<open>Error\<close> object carrying its message or any other
  thrown value; the catch handlers of the routes distinguish the two with
  \<^verbatim>\<open>error instanceof Error ? error.message : ...\<close>.
\<close>

datatype js_exn = Error string | NonError

text \<open>
  An optional, nullable property of a draft object: the key is missing
  (\<^verbatim>\<open>undefined\<close>), holds \<^verbatim>\<open>null\<close>, or holds a value.
\<close>

datatype 'a optional = Undefined | Null | Val 'a

text \<open>\<^verbatim>\<open>x ?? null\<close>\<close>

fun nullish :: "'a optional \<Rightarrow> 'a option" where
  "nullish Undefined = None"
| "nullish Null = None"
| "nullish (Val x) = Some x"

text \<open>\<^verbatim>\<open>x || d\<close> on an optional string: the empty string is falsy as well.\<close>

fun or_default :: "string option \<Rightarrow> string \<Rightarrow> string" where
  "or_default None d = d"
| "or_default (Some s) d = (if s = [] then d else s)"

text \<open>
  The test \<^verbatim>\<open>if (x)\<close> on a nullable string: the result is the string when it is
  truthy (not null and not empty).
\<close>

fun truthy :: "string option \<Rightarrow> string option" where
  "truthy None = None"
| "truthy (Some s) = (if s = [] then None else Some s)"

text \<open>A parsed JSON value (request bodies, the job's \<^verbatim>\<open>result\<close> payload).\<close>

datatype json =
    JNull
  | JBool bool
  | JNumber int
  | JString string
  | JArray "json list"
  | JObject "(string \<times> json) list"

text \<open>
  A JavaScript \<^verbatim>\<open>Map\<close> with string keys, as the list of its entries in insertion
  order. \<^verbatim>\<open>set\<close> on a key already present replaces the value in place; a new key
  goes to the end. \<^verbatim>\<open>values()\<close> iterates in insertion order.
\<close>

type_synonym 'v js_map = "(string \<times> 'v) list"

fun Map_set :: "string \<Rightarrow> 'v \<Rightarrow> 'v js_map \<Rightarrow> 'v js_map" where
  "Map_set k v [] = [(k, v)]"
| "Map_set k v (e # es) = (if fst e = k then (k, v) # es else e # Map_set k v es)"

definition Map_get :: "string \<Rightarrow> 'v js_map \<Rightarrow> 'v option" where
  "Map_get k m = map_of m k"

definition Map_values :: "'v js_map \<Rightarrow> 'v list" where
  "Map_values m = map snd m"

definition Map_keys :: "'v js_map \<Rightarrow> string list" where
  "Map_keys m = map fst m"

text \<open>Object spread \<^verbatim>\<open>{...old, ...updates}\<close>, one property at a time.\<close>

fun over :: "'a \<Rightarrow> 'a option \<Rightarrow> 'a" where
  "over old None = old"
| "over old (Some new) = new"

section \<open>The schema (shared/schema.ts)\<close>

type_synonym timestamp = nat

record Video =
  v_id :: string
  v_title :: string
  v_originalUrl :: "string option"
  v_fileName :: "string option"
  v_duration :: "int option"
  v_thumbnailUrl :: "string option"
  v_status :: string
  v_createdAt :: "timestamp option"

record InsertVideo =
  iv_title :: string
  iv_originalUrl :: "string optional"
  iv_fileName :: "string optional"
  iv_duration :: "int optional"
  iv_thumbnailUrl :: "string optional"
  iv_status :: "string option"

record Summary =
  s_id :: string
  s_videoId :: string
  s_content :: string
  s_style :: string
  s_targetDuration :: int
  s_voiceId :: string
  s_speechSpeed :: string
  s_audioUrl :: "string option"
  s_finalVideoUrl :: "string option"
  s_isEdited :: "bool option"
  s_createdAt :: "timestamp option"

record InsertSummary =
  is_videoId :: string
  is_content :: string
  is_style :: string
  is_targetDuration :: int
  is_voiceId :: string
  is_speechSpeed :: "string option"
  is_isEdited :: "bool optional"

record ProcessingJob =
  j_id :: string
  j_videoId :: string
  j_status :: string
  j_progress :: "int option"
  j_currentStep :: "string option"
  j_error :: "string option"
  j_result :: "json option"
  j_createdAt :: "timestamp option"
  j_updatedAt :: "timestamp option"

record InsertProcessingJob =
  ij_videoId :: string
  ij_status :: string
  ij_progress :: "int optional"
  ij_currentStep :: "string optional"
  ij_error :: "string optional"
  ij_result :: "json optional"

text \<open>
  \<^verbatim>\<open>Partial<T>\<close>: every property of the record may be given or left out
  (\<open>None\<close>); a nullable property that is given may be given as null.
\<close>

record VideoUpdates =
  pv_id :: "string option"
  pv_title :: "string option"
  pv_originalUrl :: "string option option"
  pv_fileName :: "string option option"
  pv_duration :: "int option option"
  pv_thumbnailUrl :: "string option option"
  pv_status :: "string option"
  pv_createdAt :: "timestamp option option"

record SummaryUpdates =
  ps_id :: "string option"
  ps_videoId :: "string option"
  ps_content :: "string option"
  ps_style :: "string option"
  ps_targetDuration :: "int option"
  ps_voiceId :: "string option"
  ps_speechSpeed :: "string option"
  ps_audioUrl :: "string option option"
  ps_finalVideoUrl :: "string option option"
  ps_isEdited :: "bool option option"
  ps_createdAt :: "timestamp option option"

record JobUpdates =
  pj_id :: "string option"
  pj_videoId :: "string option"
  pj_status :: "string option"
  pj_progress :: "int option option"
  pj_currentStep :: "string option option"
  pj_error :: "string option option"
  pj_result :: "json option option"
  pj_createdAt :: "timestamp option option"
  pj_updatedAt :: "timestamp option option"

text \<open>The object literal \<^verbatim>\<open>{}\<close> at each of the three types.\<close>

definition no_video_updates :: VideoUpdates where
  "no_video_updates =
     \<lparr>pv_id = None, pv_title = None, pv_originalUrl = None, pv_fileName = None,
      pv_duration = None, pv_thumbnailUrl = None, pv_status = None, pv_createdAt = None\<rparr>"

definition no_summary_updates :: SummaryUpdates where
  "no_summary_updates =
     \<lparr>ps_id = None, ps_videoId = None, ps_content = None, ps_style = None,
      ps_targetDuration = None, ps_voiceId = None, ps_speechSpeed = None,
      ps_audioUrl = None, ps_finalVideoUrl = None, ps_isEdited = None,
      ps_createdAt = None\<rparr>"

definition no_job_updates :: JobUpdates where
  "no_job_updates =
     \<lparr>pj_id = None, pj_videoId = None, pj_status = None, pj_progress = None,
      pj_currentStep = None, pj_error = None, pj_result = None, pj_createdAt = None,
      pj_updatedAt = None\<rparr>"

text \<open>\<^verbatim>\<open>{ ...video, ...updates }\<close> and its two siblings.\<close>

definition spread_video :: "Video \<Rightarrow> VideoUpdates \<Rightarrow> Video" where
  "spread_video video updates =
     \<lparr>v_id = over (v_id video) (pv_id updates),
      v_title = over (v_title video) (pv_title updates),
      v_originalUrl = over (v_originalUrl video) (pv_originalUrl updates),
      v_fileName = over (v_fileName video) (pv_fileName updates),
      v_duration = over (v_duration video) (pv_duration updates),
      v_thumbnailUrl = over (v_thumbnailUrl video) (pv_thumbnailUrl updates),
      v_status = over (v_status video) (pv_status updates),
      v_createdAt = over (v_createdAt video) (pv_createdAt updates)\<rparr>"

definition spread_summary :: "Summary \<Rightarrow> SummaryUpdates \<Rightarrow> Summary" where
  "spread_summary summary updates =
     \<lparr>s_id = over (s_id summary) (ps_id updates),
      s_videoId = over (s_videoId summary) (ps_videoId updates),
      s_content = over (s_content summary) (ps_content updates),
      s_style = over (s_style summary) (ps_style updates),
      s_targetDuration = over (s_targetDuration summary) (ps_targetDuration updates),
      s_voiceId = over (s_voiceId summary) (ps_voiceId updates),
      s_speechSpeed = over (s_speechSpeed summary) (ps_speechSpeed updates),
      s_audioUrl = over (s_audioUrl summary) (ps_audioUrl updates),
      s_finalVideoUrl = over (s_finalVideoUrl summary) (ps_finalVideoUrl updates),
      s_isEdited = over (s_isEdited summary) (ps_isEdited updates),
      s_createdAt = over (s_createdAt summary) (ps_createdAt updates)\<rparr>"

definition spread_job :: "ProcessingJob \<Rightarrow> JobUpdates \<Rightarrow> ProcessingJob" where
  "spread_job job updates =
     \<lparr>j_id = over (j_id job) (pj_id updates),
      j_videoId = over (j_videoId job) (pj_videoId updates),
      j_status = over (j_status job) (pj_status updates),
      j_progress = over (j_progress job) (pj_progress updates),
      j_currentStep = over (j_currentStep job) (pj_currentStep updates),
      j_error = over (j_error job) (pj_error updates),
      j_result = over (j_result job) (pj_result updates),
      j_createdAt = over (j_createdAt job) (pj_createdAt updates),
      j_updatedAt = over (j_updatedAt job) (pj_updatedAt updates)\<rparr>"

section \<open>The host: everything outside the repository\<close>

type_synonym buffer = string

record VideoMetadata =
  md_title :: string
  md_duration :: int
  md_thumbnail :: string
  md_audioPath :: string

record ProbeMetadata =
  pm_duration :: int
  pm_title :: string

record VideoAnalysisResult =
  ar_title :: string
  ar_keyPoints :: "string list"
  ar_topics :: "string list"
  ar_sentiment :: string
  ar_duration :: int

record SummaryResult =
  sr_content :: string
  sr_keyHighlights :: "string list"
  sr_callToAction :: string

text \<open>
  The outcomes of the calls that leave the repository: the identifier and clock
  sources (the n-th \<^verbatim>\<open>randomUUID()\<close> and the n-th \<^verbatim>\<open>new Date()\<close> of the store), the
  path functions of the runtime, the file system, and the functions of
  \<^verbatim>\<open>services/videoProcessor\<close> and \<^verbatim>\<open>services/openai\<close>, whose bodies run external
  programs and call the model's network interface: each either returns its result
  or throws.
\<close>

record host =
  uuid_source :: "nat \<Rightarrow> string"
  date_source :: "nat \<Rightarrow> timestamp"
  cwd :: string
  path_join :: "string list \<Rightarrow> string"
  downloadYouTubeVideo :: "string \<Rightarrow> js_exn + VideoMetadata"
  getVideoMetadata :: "string \<Rightarrow> js_exn + ProbeMetadata"
  extractAudioFromFile :: "string \<Rightarrow> js_exn + string"
  readFile :: "string \<Rightarrow> js_exn + buffer"
  writeFile :: "string \<Rightarrow> buffer \<Rightarrow> js_exn + unit"
  transcribeAudio :: "buffer \<Rightarrow> js_exn + string"
  analyzeVideoContent :: "string \<Rightarrow> string \<Rightarrow> js_exn + VideoAnalysisResult"
  generateSummary :: "string \<Rightarrow> string \<Rightarrow> int \<Rightarrow> VideoAnalysisResult \<Rightarrow> js_exn + SummaryResult"
  generateSpeech :: "string \<Rightarrow> string \<Rightarrow> string \<Rightarrow> js_exn + buffer"

text \<open>An invocation of one of the services, with its arguments.\<close>

datatype call =
    DownloadYouTubeVideo string
  | GetVideoMetadata string
  | ExtractAudioFromFile string
  | ReadFile string
  | WriteFile string buffer
  | TranscribeAudio buffer
  | AnalyzeVideoContent string string
  | GenerateSummary string string int VideoAnalysisResult
  | GenerateSpeech string string string

section \<open>The process state\<close>

record MemStorage =
  videos :: "Video js_map"
  summaries :: "Summary js_map"
  processingJobs :: "ProcessingJob js_map"

text \<open>
  The state of the server process: the exported \<^verbatim>\<open>storage\<close> object, how many
  identifiers and dates have been drawn from the host, and the pending timers
  (delay in milliseconds and the files \<^verbatim>\<open>cleanupTempFiles\<close> is to be called on).
  Two history fields record what the code did and influence nothing: \<open>calls\<close> is the
  list of service invocations so far, \<open>job_writes\<close> the list of records passed to
  \<^verbatim>\<open>this.processingJobs.set\<close> so far, oldest first.
\<close>

record world =
  storage :: MemStorage
  uuid_drawn :: nat
  dates_read :: nat
  timers :: "(nat \<times> string list) list"
  calls :: "call list"
  job_writes :: "ProcessingJob list"

text \<open>
  An asynchronous function: run on a state, it settles with a value (\<open>Inr\<close>) or
  rejects with an exception (\<open>Inl\<close>), and leaves a state. Tasks are run one after
  the other; other requests interleaved at the suspension points are not part of
  the model.
\<close>

type_synonym 'a task = "world \<Rightarrow> (js_exn + 'a) \<times> world"

definition resolve :: "'a \<Rightarrow> 'a task" where
  "resolve x w = (Inr x, w)"

definition throw :: "js_exn \<Rightarrow> 'a task" where
  "throw e w = (Inl e, w)"

text \<open>\<^verbatim>\<open>const x = await m; f(x)\<close>: a rejection of \<open>m\<close> skips \<open>f\<close>.\<close>

definition await :: "'a task \<Rightarrow> ('a \<Rightarrow> 'b task) \<Rightarrow> 'b task" where
  "await m f w = (case m w of (Inl e, w') \<Rightarrow> (Inl e, w') | (Inr x, w') \<Rightarrow> f x w')"

text \<open>\<^verbatim>\<open>try { m } catch (error) { handler(error) }\<close>\<close>

definition try_catch :: "'a task \<Rightarrow> (js_exn \<Rightarrow> 'a task) \<Rightarrow> 'a task" where
  "try_catch m handler w =
     (case m w of (Inl e, w') \<Rightarrow> handler e w' | (Inr x, w') \<Rightarrow> (Inr x, w'))"

definition randomUUID :: "host \<Rightarrow> string task" where
  "randomUUID h w = (Inr (uuid_source h (uuid_drawn w)), w\<lparr>uuid_drawn := Suc (uuid_drawn w)\<rparr>)"

definition new_Date :: "host \<Rightarrow> timestamp task" where
  "new_Date h w = (Inr (date_source h (dates_read w)), w\<lparr>dates_read := Suc (dates_read w)\<rparr>)"

text \<open>Calling a service: the host's outcome, and the invocation goes on record.\<close>

definition invoke :: "call \<Rightarrow> js_exn + 'a \<Rightarrow> 'a task" where
  "invoke c outcome w = (outcome, w\<lparr>calls := calls w @ [c]\<rparr>)"

definition setTimeout :: "string list \<Rightarrow> nat \<Rightarrow> unit task" where
  "setTimeout files ms w = (Inr (), w\<lparr>timers := timers w @ [(ms, files)]\<rparr>)"

section \<open>MemStorage (storage.ts)\<close>

definition videos_set :: "string \<Rightarrow> Video \<Rightarrow> unit task" where
  "videos_set k v w =
     (Inr (), w\<lparr>storage := (storage w)\<lparr>videos := Map_set k v (videos (storage w))\<rparr>\<rparr>)"

definition summaries_set :: "string \<Rightarrow> Summary \<Rightarrow> unit task" where
  "summaries_set k v w =
     (Inr (), w\<lparr>storage := (storage w)\<lparr>summaries := Map_set k v (summaries (storage w))\<rparr>\<rparr>)"

definition processingJobs_set :: "string \<Rightarrow> ProcessingJob \<Rightarrow> unit task" where
  "processingJobs_set k v w =
     (Inr (), w\<lparr>storage := (storage w)\<lparr>processingJobs := Map_set k v (processingJobs (storage w))\<rparr>,
               job_writes := job_writes w @ [v]\<rparr>)"

definition createVideo :: "host \<Rightarrow> InsertVideo \<Rightarrow> Video task" where
  "createVideo h insertVideo =
     await (randomUUID h) (\<lambda>ident.
     await (new_Date h) (\<lambda>now.
       let video = \<lparr>v_id = ident,
                    v_title = iv_title insertVideo,
                    v_originalUrl = nullish (iv_originalUrl insertVideo),
                    v_fileName = nullish (iv_fileName insertVideo),
                    v_duration = nullish (iv_duration insertVideo),
                    v_thumbnailUrl = nullish (iv_thumbnailUrl insertVideo),
                    v_status = or_default (iv_status insertVideo) ''uploading'',
                    v_createdAt = Some now\<rparr>
       in await (videos_set ident video) (\<lambda>_. resolve video)))"

definition getVideo :: "string \<Rightarrow> Video option task" where
  "getVideo ident w = (Inr (Map_get ident (videos (storage w))), w)"

definition updateVideo :: "string \<Rightarrow> VideoUpdates \<Rightarrow> Video task" where
  "updateVideo ident updates w =
     (case Map_get ident (videos (storage w)) of
        None \<Rightarrow> throw (Error ''Video not found'') w
      | Some video \<Rightarrow>
          (let updatedVideo = spread_video video updates
           in await (videos_set ident updatedVideo) (\<lambda>_. resolve updatedVideo) w))"

definition createSummary :: "host \<Rightarrow> InsertSummary \<Rightarrow> Summary task" where
  "createSummary h insertSummary =
     await (randomUUID h) (\<lambda>ident.
     await (new_Date h) (\<lambda>now.
       let summary = \<lparr>s_id = ident,
                      s_videoId = is_videoId insertSummary,
                      s_content = is_content insertSummary,
                      s_style = is_style insertSummary,
                      s_targetDuration = is_targetDuration insertSummary,
                      s_voiceId = is_voiceId insertSummary,
                      s_speechSpeed = or_default (is_speechSpeed insertSummary) ''1.0'',
                      s_audioUrl = None,
                      s_finalVideoUrl = None,
                      s_isEdited = Some False,
                      s_createdAt = Some now\<rparr>
       in await (summaries_set ident summary) (\<lambda>_. resolve summary)))"

definition getSummary :: "string \<Rightarrow> Summary option task" where
  "getSummary ident w = (Inr (Map_get ident (summaries (storage w))), w)"

definition getSummaryByVideoId :: "string \<Rightarrow> Summary option task" where
  "getSummaryByVideoId videoId w =
     (Inr (find (\<lambda>summary. s_videoId summary = videoId) (Map_values (summaries (storage w)))), w)"

definition updateSummary :: "string \<Rightarrow> SummaryUpdates \<Rightarrow> Summary task" where
  "updateSummary ident updates w =
     (case Map_get ident (summaries (storage w)) of
        None \<Rightarrow> throw (Error ''Summary not found'') w
      | Some summary \<Rightarrow>
          (let updatedSummary = spread_summary summary updates
           in await (summaries_set ident updatedSummary) (\<lambda>_. resolve updatedSummary) w))"

definition createProcessingJob :: "host \<Rightarrow> InsertProcessingJob \<Rightarrow> ProcessingJob task" where
  "createProcessingJob h insertJob =
     await (randomUUID h) (\<lambda>ident.
     await (new_Date h) (\<lambda>created.
     await (new_Date h) (\<lambda>updated.
       let job = \<lparr>j_id = ident,
                  j_videoId = ij_videoId insertJob,
                  j_status = ij_status insertJob,
                  j_progress = nullish (ij_progress insertJob),
                  j_currentStep = nullish (ij_currentStep insertJob),
                  j_error = nullish (ij_error insertJob),
                  j_result = nullish (ij_result insertJob),
                  j_createdAt = Some created,
                  j_updatedAt = Some updated\<rparr>
       in await (processingJobs_set ident job) (\<lambda>_. resolve job))))"

definition getProcessingJob :: "string \<Rightarrow> ProcessingJob option task" where
  "getProcessingJob ident w = (Inr (Map_get ident (processingJobs (storage w))), w)"

definition getProcessingJobByVideoId :: "string \<Rightarrow> ProcessingJob option task" where
  "getProcessingJobByVideoId videoId w =
     (Inr (find (\<lambda>job. j_videoId job = videoId) (Map_values (processingJobs (storage w)))), w)"

definition updateProcessingJob :: "host \<Rightarrow> string \<Rightarrow> JobUpdates \<Rightarrow> ProcessingJob task" where
  "updateProcessingJob h ident updates w =
     (case Map_get ident (processingJobs (storage w)) of
        None \<Rightarrow> throw (Error ''Processing job not found'') w
      | Some job \<Rightarrow>
          await (new_Date h) (\<lambda>now.
            let updatedJob = (spread_job job updates)\<lparr>j_updatedAt := Some now\<rparr>
            in await (processingJobs_set ident updatedJob) (\<lambda>_. resolve updatedJob)) w)"

section \<open>The content pipeline (routes.ts)\<close>

text \<open>\<^verbatim>\<open>error instanceof Error ? error.message : "Unknown error"\<close>\<close>

fun error_message :: "js_exn \<Rightarrow> string" where
  "error_message (Error message) = message"
| "error_message NonError = ''Unknown error''"

text \<open>
  The body of the \<^verbatim>\<open>try\<close> block of \<^verbatim>\<open>processVideo\<close>. The \<^verbatim>\<open>let\<close> variable
  assigned in the branches of the source test becomes the value of the acquisition
  step. Console output is not modelled.
\<close>

definition processVideo_try :: "host \<Rightarrow> string \<Rightarrow> unit task" where
  "processVideo_try h videoId =
     await (getVideo videoId) (\<lambda>found.
     case found of
       None \<Rightarrow> throw (Error ''Video not found'')
     | Some video \<Rightarrow>
     await (createProcessingJob h
              \<lparr>ij_videoId = videoId, ij_status = ''processing'', ij_progress = Val 0,
               ij_currentStep = Val ''analyzing'', ij_error = Undefined,
               ij_result = Undefined\<rparr>) (\<lambda>job.
     await (updateProcessingJob h (j_id job)
              (no_job_updates\<lparr>pj_progress := Some (Some 10),
                              pj_currentStep := Some (Some ''analyzing'')\<rparr>)) (\<lambda>_.
     await (case truthy (v_originalUrl video) of
              Some originalUrl \<Rightarrow>
                await (invoke (DownloadYouTubeVideo originalUrl)
                         (downloadYouTubeVideo h originalUrl)) (\<lambda>metadata.
                await (updateVideo videoId
                         (no_video_updates\<lparr>pv_title := Some (md_title metadata),
                                           pv_duration := Some (Some (md_duration metadata)),
                                           pv_thumbnailUrl := Some (Some (md_thumbnail metadata))\<rparr>)) (\<lambda>_.
                resolve (md_audioPath metadata)))
            | None \<Rightarrow>
               (case truthy (v_fileName video) of
                  Some fileName \<Rightarrow>
                    (let filePath = path_join h [cwd h, ''temp/uploads'', fileName] in
                     await (invoke (GetVideoMetadata filePath) (getVideoMetadata h filePath)) (\<lambda>metadata.
                     await (invoke (ExtractAudioFromFile filePath)
                              (extractAudioFromFile h filePath)) (\<lambda>audioPath.
                     await (updateVideo videoId
                              (no_video_updates\<lparr>pv_duration := Some (Some (pm_duration metadata))\<rparr>)) (\<lambda>_.
                     resolve audioPath))))
                | None \<Rightarrow> throw (Error ''No video source available''))) (\<lambda>audioPath.
     await (updateProcessingJob h (j_id job)
              (no_job_updates\<lparr>pj_progress := Some (Some 30),
                              pj_currentStep := Some (Some ''transcribing'')\<rparr>)) (\<lambda>_.
     await (invoke (ReadFile audioPath) (readFile h audioPath)) (\<lambda>audioBuffer.
     await (invoke (TranscribeAudio audioBuffer) (transcribeAudio h audioBuffer)) (\<lambda>transcript.
     await (updateProcessingJob h (j_id job)
              (no_job_updates\<lparr>pj_progress := Some (Some 50),
                              pj_currentStep := Some (Some ''summarizing'')\<rparr>)) (\<lambda>_.
     await (invoke (AnalyzeVideoContent transcript (v_title video))
              (analyzeVideoContent h transcript (v_title video))) (\<lambda>analysis.
     await (getSummaryByVideoId videoId) (\<lambda>existing.
     await (case existing of
              None \<Rightarrow>
                createSummary h
                  \<lparr>is_videoId = videoId, is_content = [], is_style = ''informative'',
                   is_targetDuration = 60, is_voiceId = ''alloy'',
                   is_speechSpeed = Some ''1.0'', is_isEdited = Undefined\<rparr>
            | Some summary \<Rightarrow> resolve summary) (\<lambda>summary.
     await (invoke (GenerateSummary transcript (s_style summary) (s_targetDuration summary) analysis)
              (generateSummary h transcript (s_style summary) (s_targetDuration summary) analysis))
           (\<lambda>summaryResult.
     await (updateSummary (s_id summary)
              (no_summary_updates\<lparr>ps_content := Some (sr_content summaryResult)\<rparr>)) (\<lambda>_.
     await (updateProcessingJob h (j_id job)
              (no_job_updates\<lparr>pj_progress := Some (Some 70),
                              pj_currentStep := Some (Some ''generating_audio'')\<rparr>)) (\<lambda>_.
     await (invoke (GenerateSpeech (sr_content summaryResult) (s_voiceId summary) (s_speechSpeed summary))
              (generateSpeech h (sr_content summaryResult) (s_voiceId summary) (s_speechSpeed summary)))
           (\<lambda>speechBuffer.
     let audioOutputPath = path_join h [cwd h, ''temp'', videoId @ ''_speech.mp3''] in
     await (invoke (WriteFile audioOutputPath speechBuffer)
              (writeFile h audioOutputPath speechBuffer)) (\<lambda>_.
     await (updateProcessingJob h (j_id job)
              (no_job_updates\<lparr>pj_progress := Some (Some 90),
                              pj_currentStep := Some (Some ''creating_video'')\<rparr>)) (\<lambda>_.
     await (updateSummary (s_id summary)
              (no_summary_updates\<lparr>ps_audioUrl := Some (Some audioOutputPath),
                                  ps_finalVideoUrl := Some (Some audioOutputPath)\<rparr>)) (\<lambda>_.
     await (updateProcessingJob h (j_id job)
              (no_job_updates\<lparr>pj_status := Some ''completed'',
                              pj_progress := Some (Some 100),
                              pj_currentStep := Some (Some ''completed''),
                              pj_result := Some (Some (JObject
                                [(''summaryId'', JString (s_id summary)),
                                 (''audioUrl'', JString audioOutputPath)]))\<rparr>)) (\<lambda>_.
     await (updateVideo videoId (no_video_updates\<lparr>pv_status := Some ''completed''\<rparr>)) (\<lambda>_.
     setTimeout [audioPath, audioOutputPath] (24 * 60 * 60 * 1000)))))))))))))))))))))"

text \<open>The \<^verbatim>\<open>catch (error)\<close> block of \<^verbatim>\<open>processVideo\<close>.\<close>

definition processVideo_catch :: "host \<Rightarrow> string \<Rightarrow> js_exn \<Rightarrow> unit task" where
  "processVideo_catch h videoId error =
     await (getProcessingJobByVideoId videoId) (\<lambda>found.
     await (case found of
              Some job \<Rightarrow>
                await (updateProcessingJob h (j_id job)
                         (no_job_updates\<lparr>pj_status := Some ''failed'',
                                         pj_error := Some (Some (error_message error))\<rparr>))
                      (\<lambda>_. resolve ())
            | None \<Rightarrow> resolve ()) (\<lambda>_.
     await (updateVideo videoId (no_video_updates\<lparr>pv_status := Some ''failed''\<rparr>)) (\<lambda>_.
     resolve ())))"

text \<open>
  \<^verbatim>\<open>processVideo\<close>: the promise it returns is fulfilled (\<open>Inr\<close>) when the body
  completes or the handler completes, and rejected (\<open>Inl\<close>) when the handler itself
  throws.
\<close>

definition processVideo :: "host \<Rightarrow> string \<Rightarrow> unit task" where
  "processVideo h videoId = try_catch (processVideo_try h videoId) (processVideo_catch h videoId)"

section \<open>Two of the routes (routes.ts)\<close>

text \<open>What a handler sends: \<^verbatim>\<open>res.json(x)\<close> or \<^verbatim>\<open>res.status(n).json({ message })\<close>.\<close>

datatype 'a response = Json 'a | Status nat string

text \<open>
  \<^verbatim>\<open>summaryUpdateSchema.parse\<close> for \<^verbatim>\<open>z.object({ content: z.string().min(1) })\<close>: the
  body must be an object whose property \<^verbatim>\<open>content\<close> is a string of length at least
  one. The text of the validation error comes from the library and is left open.
\<close>

fun summaryUpdateSchema_parse :: "string \<Rightarrow> json \<Rightarrow> js_exn + string" where
  "summaryUpdateSchema_parse issue (JObject properties) =
     (case map_of properties ''content'' of
        Some (JString content) \<Rightarrow> if 1 \<le> length content then Inr content else Inl (Error issue)
      | _ \<Rightarrow> Inl (Error issue))"
| "summaryUpdateSchema_parse issue _ = Inl (Error issue)"

text \<open>\<^verbatim>\<open>error instanceof Error ? error.message : fallback\<close>\<close>

fun message_or :: "js_exn \<Rightarrow> string \<Rightarrow> string" where
  "message_or (Error message) fallback = message"
| "message_or NonError fallback = fallback"

text \<open>
  A route handler always settles with a response: its own \<^verbatim>\<open>try/catch\<close> turns
  every exception into a status reply.
\<close>

definition patch_summary :: "string \<Rightarrow> string \<Rightarrow> json \<Rightarrow> world \<Rightarrow> Summary response \<times> world" where
  "patch_summary issue ident body w =
     (case await (\<lambda>w. (summaryUpdateSchema_parse issue body, w)) (\<lambda>content.
             updateSummary ident
               (no_summary_updates\<lparr>ps_content := Some content, ps_isEdited := Some (Some True)\<rparr>)) w of
        (Inr summary, w') \<Rightarrow> (Json summary, w')
      | (Inl error, w') \<Rightarrow> (Status 400 (message_or error ''Invalid request data''), w'))"

definition regenerate_audio :: "host \<Rightarrow> string \<Rightarrow> world \<Rightarrow> Summary response \<times> world" where
  "regenerate_audio h ident w =
     (case await (getSummary ident) (\<lambda>found.
             case found of
               None \<Rightarrow> resolve (Status 404 ''Summary not found'')
             | Some summary \<Rightarrow>
                 await (invoke (GenerateSpeech (s_content summary) (s_voiceId summary) (s_speechSpeed summary))
                          (generateSpeech h (s_content summary) (s_voiceId summary) (s_speechSpeed summary)))
                       (\<lambda>speechBuffer.
                 let audioOutputPath =
                       path_join h [cwd h, ''temp'', s_videoId summary @ ''_speech_updated.mp3''] in
                 await (invoke (WriteFile audioOutputPath speechBuffer)
                          (writeFile h audioOutputPath speechBuffer)) (\<lambda>_.
                 await (updateSummary (s_id summary)
                          (no_summary_updates\<lparr>ps_audioUrl := Some (Some audioOutputPath)\<rparr>))
                       (\<lambda>updatedSummary.
                 resolve (Json updatedSummary))))) w of
        (Inr reply, w') \<Rightarrow> (reply, w')
      | (Inl error, w') \<Rightarrow> (Status 500 (message_or error ''Failed to regenerate audio''), w'))"

section \<open>The store's invariant\<close>

text \<open>
  A JavaScript \<^verbatim>\<open>Map\<close> holds each key once, and every record the routes and the
  pipeline store is stored under its own \<^verbatim>\<open>id\<close>: no caller of the update operations
  passes an \<^verbatim>\<open>id\<close> among the updates.
\<close>

definition wf_map :: "('v \<Rightarrow> string) \<Rightarrow> 'v js_map \<Rightarrow> bool" where
  "wf_map key_of m \<longleftrightarrow> distinct (Map_keys m) \<and> list_all (\<lambda>(k, r). key_of r = k) m"

definition wf_storage :: "MemStorage \<Rightarrow> bool" where
  "wf_storage s \<longleftrightarrow>
     wf_map v_id (videos s) \<and> wf_map s_id (summaries s) \<and> wf_map j_id (processingJobs s)"

text \<open>
  What the store relies on for its identifiers: \<^verbatim>\<open>randomUUID()\<close> does not return the
  same identifier twice (\<open>inj (uuid_source h)\<close>), and every key of the three maps is an
  identifier it has returned to the store.
\<close>

definition ids_drawn :: "host \<Rightarrow> world \<Rightarrow> bool" where
  "ids_drawn h w \<longleftrightarrow>
     set (Map_keys (videos (storage w)) @ Map_keys (summaries (storage w))
          @ Map_keys (processingJobs (storage w)))
       \<subseteq> set (map (uuid_source h) [0..<uuid_drawn w])"

section \<open>Assertions about tasks\<close>

text \<open>
  \<open>triple P m Q E\<close>: run on a state that satisfies \<open>P\<close>, the task \<open>m\<close> either settles
  with a value \<open>x\<close> in a state that satisfies \<open>Q x\<close>, or rejects with an exception \<open>e\<close>
  in a state that satisfies \<open>E e\<close>. \<open>preserves I m\<close>: whatever the outcome, \<open>m\<close> keeps \<open>I\<close>.
\<close>

definition triple ::
  "(world \<Rightarrow> bool) \<Rightarrow> 'a task \<Rightarrow> ('a \<Rightarrow> world \<Rightarrow> bool) \<Rightarrow> (js_exn \<Rightarrow> world \<Rightarrow> bool) \<Rightarrow> bool" where
  "triple P m Q E \<longleftrightarrow>
     (\<forall>w. P w \<longrightarrow> (case m w of (Inl e, w') \<Rightarrow> E e w' | (Inr x, w') \<Rightarrow> Q x w'))"

definition preserves :: "(world \<Rightarrow> bool) \<Rightarrow> 'a task \<Rightarrow> bool" where
  "preserves I m \<longleftrightarrow> triple I m (\<lambda>_. I) (\<lambda>_. I)"

text \<open>
  What the catch handler of \<^verbatim>\<open>processVideo\<close> relies on: the video is stored, a job for
  it is recorded, and the job map is well formed.
\<close>

definition job_recorded :: "string \<Rightarrow> world \<Rightarrow> bool" where
  "job_recorded videoId w \<longleftrightarrow>
     wf_map j_id (processingJobs (storage w))
     \<and> Map_get videoId (videos (storage w)) \<noteq> None
     \<and> find (\<lambda>job. j_videoId job = videoId) (Map_values (processingJobs (storage w))) \<noteq> None"

text \<open>Every job recorded for the video is the job with the given identifier.\<close>

definition only_job :: "string \<Rightarrow> string \<Rightarrow> world \<Rightarrow> bool" where
  "only_job ident videoId w \<longleftrightarrow>
     list_all (\<lambda>job. j_videoId job = videoId \<longrightarrow> j_id job = ident)
       (Map_values (processingJobs (storage w)))"

section \<open>Concrete scenarios\<close>

text \<open>A host on which every service succeeds.\<close>

definition host_ok :: host where
  "host_ok =
     \<lparr>uuid_source = (\<lambda>n. ''uuid-'' @ replicate n CHR ''i''),
      date_source = (\<lambda>n. 1700000000 + n),
      cwd = ''/app'',
      path_join = (\<lambda>parts. foldr (\<lambda>p rest. if rest = [] then p else p @ ''/'' @ rest) parts []),
      downloadYouTubeVideo = (\<lambda>url.
        Inr \<lparr>md_title = ''Talk'', md_duration = 120, md_thumbnail = ''/app/temp/d.webp'',
             md_audioPath = ''/app/temp/d.mp3''\<rparr>),
      getVideoMetadata = (\<lambda>filePath. Inr \<lparr>pm_duration = 95, pm_title = ''clip.mp4''\<rparr>),
      extractAudioFromFile = (\<lambda>filePath. Inr ''/app/temp/e.mp3''),
      readFile = (\<lambda>filePath. Inr ''ID3''),
      writeFile = (\<lambda>filePath data. Inr ()),
      transcribeAudio = (\<lambda>audio. Inr ''hello world''),
      analyzeVideoContent = (\<lambda>transcript title.
        Inr \<lparr>ar_title = title, ar_keyPoints = [], ar_topics = [], ar_sentiment = ''neutral'',
             ar_duration = 120\<rparr>),
      generateSummary = (\<lambda>transcript style targetDuration analysis.
        Inr \<lparr>sr_content = ''A greeting.'', sr_keyHighlights = [], sr_callToAction = ''Watch''\<rparr>),
      generateSpeech = (\<lambda>text voice speed. Inr ''MP3'')\<rparr>"

text \<open>The same host, but the model answers with an empty summary text.\<close>

definition host_empty_summary :: host where
  "host_empty_summary =
     host_ok\<lparr>generateSummary := (\<lambda>transcript style targetDuration analysis.
        Inr \<lparr>sr_content = [], sr_keyHighlights = [], sr_callToAction = []\<rparr>)\<rparr>"

text \<open>The same host, but transcription fails.\<close>

definition host_no_transcript :: host where
  "host_no_transcript =
     host_ok\<lparr>transcribeAudio := (\<lambda>audio. Inl (Error ''Failed to transcribe audio: timeout''))\<rparr>"

definition world_empty :: world where
  "world_empty =
     \<lparr>storage = \<lparr>videos = [], summaries = [], processingJobs = []\<rparr>,
      uuid_drawn = 0, dates_read = 0, timers = [], calls = [], job_writes = []\<rparr>"

definition video_v1 :: Video where
  "video_v1 =
     \<lparr>v_id = ''v1'', v_title = ''Processing...'', v_originalUrl = Some ''https://youtu.be/x'',
      v_fileName = None, v_duration = None, v_thumbnailUrl = None, v_status = ''processing'',
      v_createdAt = Some 1600000000\<rparr>"

definition summary_s1 :: Summary where
  "summary_s1 =
     \<lparr>s_id = ''s1'', s_videoId = ''v1'', s_content = [], s_style = ''entertaining'',
      s_targetDuration = 30, s_voiceId = ''nova'', s_speechSpeed = ''1.1'', s_audioUrl = None,
      s_finalVideoUrl = None, s_isEdited = Some False, s_createdAt = Some 1600000001\<rparr>"

definition job_j1 :: ProcessingJob where
  "job_j1 =
     \<lparr>j_id = ''j1'', j_videoId = ''v1'', j_status = ''processing'', j_progress = Some 10,
      j_currentStep = Some ''analyzing'', j_error = None, j_result = None,
      j_createdAt = Some 1600000002, j_updatedAt = Some 1600000003\<rparr>"

text \<open>The store as \<^verbatim>\<open>POST /api/videos/youtube\<close> leaves it: a video and its summary.\<close>

definition world_submitted :: world where
  "world_submitted =
     world_empty\<lparr>storage := \<lparr>videos = [(''v1'', video_v1)], summaries = [(''s1'', summary_s1)],
                              processingJobs = []\<rparr>\<rparr>"

text \<open>The same store with a job for the video.\<close>

definition world_running :: world where
  "world_running =
     world_empty\<lparr>storage := \<lparr>videos = [(''v1'', video_v1)], summaries = [(''s1'', summary_s1)],
                              processingJobs = [(''j1'', job_j1)]\<rparr>\<rparr>"

text \<open>A store whose only video has neither a source URL nor an uploaded file.\<close>

definition world_no_source :: world where
  "world_no_source =
     world_empty\<lparr>storage := \<lparr>videos = [(''v1'', video_v1\<lparr>v_originalUrl := None\<rparr>)],
                              summaries = [(''s1'', summary_s1)], processingJobs = []\<rparr>\<rparr>"

text \<open>The store after one \<^verbatim>\<open>createVideo\<close> on the empty store.\<close>

definition world_one_video :: world where
  "world_one_video =
     world_empty\<lparr>storage :=
       \<lparr>videos = [(''uuid-'',
           \<lparr>v_id = ''uuid-'', v_title = ''intro'', v_originalUrl = Some ''https://youtu.be/y'',
            v_fileName = None, v_duration = None, v_thumbnailUrl = None,
            v_status = ''processing'', v_createdAt = Some 1700000000\<rparr>)],
        summaries = [], processingJobs = []\<rparr>,
       uuid_drawn := Suc 0, dates_read := Suc 0\<rparr>"

definition draft_completed :: InsertVideo where
  "draft_completed =
     \<lparr>iv_title = ''clip'', iv_originalUrl = Null, iv_fileName = Val ''clip.mp4'',
      iv_duration = Undefined, iv_thumbnailUrl = Undefined, iv_status = Some ''completed''\<rparr>"

definition draft_upload :: InsertVideo where
  "draft_upload =
     \<lparr>iv_title = ''clip'', iv_originalUrl = Null, iv_fileName = Val ''clip.mp4'',
      iv_duration = Null, iv_thumbnailUrl = Null, iv_status = Some ''processing''\<rparr>"

section \<open>Facts about the Map model\<close>

lemma Map_get_set: "Map_get k (Map_set k' v m) = (if k = k' then Some v else Map_get k m)"
  by (induction m) (auto simp: Map_get_def)

lemma Map_set_set: "Map_set k v (Map_set k v' m) = Map_set k v m"
  by (induction m) auto

lemma Map_keys_set:
  "Map_keys (Map_set k v m) = (if k \<in> set (Map_keys m) then Map_keys m else Map_keys m @ [k])"
  by (induction m) (auto simp: Map_keys_def)

lemma Map_get_None_iff: "Map_get k m = None \<longleftrightarrow> k \<notin> set (Map_keys m)"
  by (simp add: Map_get_def Map_keys_def map_of_eq_None_iff)

lemma Map_keys_set_present: "Map_get k m = Some x \<Longrightarrow> Map_keys (Map_set k v m) = Map_keys m"
  by (auto simp: Map_keys_set Map_get_None_iff [symmetric])

lemma Map_set_fresh: "k \<notin> set (Map_keys m) \<Longrightarrow> Map_set k v m = m @ [(k, v)]"
  by (induction m) (auto simp: Map_keys_def)

lemma Map_get_first: "map_option (Pair k) (Map_get k m) = find (\<lambda>e. fst e = k) m"
  by (induction m) (auto simp: Map_get_def)

lemma wf_map_Nil: "wf_map key_of []"
  by (simp add: wf_map_def Map_keys_def)

lemma wf_map_Cons:
  "wf_map key_of ((k, r) # es) \<longleftrightarrow> key_of r = k \<and> k \<notin> set (Map_keys es) \<and> wf_map key_of es"
  by (auto simp: wf_map_def Map_keys_def)

lemma wf_map_set: "wf_map key_of m \<Longrightarrow> key_of r = k \<Longrightarrow> wf_map key_of (Map_set k r m)"
proof (induction m)
  case Nil
  then show ?case by (simp add: wf_map_Cons wf_map_Nil Map_keys_def)
next
  case (Cons e es)
  obtain k' r' where e: "e = (k', r')" by (cases e)
  from Cons show ?case
    by (auto simp: e wf_map_Cons Map_keys_set)
qed

lemma wf_value_key: "wf_map key_of m \<Longrightarrow> r \<in> set (Map_values m) \<Longrightarrow> key_of r \<in> set (Map_keys m)"
  by (force simp: wf_map_def Map_values_def Map_keys_def list_all_iff)

lemma find_Some_mem: "find P xs = Some x \<Longrightarrow> x \<in> set xs \<and> P x"
  by (induction xs) (auto split: if_splits)

text \<open>
  In a well-formed map, the record a scan finds sits under its own key, and storing a
  record under that key that still satisfies the test makes the scan find the new
  record.
\<close>

lemma wf_find_get:
  "wf_map key_of m \<Longrightarrow> find P (Map_values m) = Some r \<Longrightarrow> Map_get (key_of r) m = Some r"
proof (induction m)
  case Nil
  then show ?case by (simp add: Map_values_def)
next
  case (Cons e es)
  obtain k x where e: "e = (k, x)" by (cases e)
  show ?case
  proof (cases "P x")
    case True
    with Cons.prems show ?thesis
      by (simp add: e Map_values_def Map_get_def wf_map_Cons)
  next
    case False
    with Cons.prems have found: "find P (Map_values es) = Some r"
      by (simp add: e Map_values_def)
    from Cons.prems have wf: "wf_map key_of es" and fresh: "k \<notin> set (Map_keys es)"
      by (simp_all add: e wf_map_Cons)
    from found have "r \<in> set (Map_values es)"
      by (simp add: find_Some_mem)
    with wf have "key_of r \<in> set (Map_keys es)"
      by (rule wf_value_key)
    with fresh have "key_of r \<noteq> k" by auto
    with Cons.IH [OF wf found] show ?thesis
      by (simp add: e Map_get_def)
  qed
qed

lemma find_Map_set_same:
  "wf_map key_of m \<Longrightarrow> find P (Map_values m) = Some r \<Longrightarrow> P r' \<Longrightarrow>
     find P (Map_values (Map_set (key_of r) r' m)) = Some r'"
proof (induction m)
  case Nil
  then show ?case by (simp add: Map_values_def)
next
  case (Cons e es)
  obtain k x where e: "e = (k, x)" by (cases e)
  show ?case
  proof (cases "P x")
    case True
    with Cons.prems show ?thesis
      by (simp add: e Map_values_def wf_map_Cons)
  next
    case False
    with Cons.prems have found: "find P (Map_values es) = Some r"
      by (simp add: e Map_values_def)
    from Cons.prems have wf: "wf_map key_of es" and fresh: "k \<notin> set (Map_keys es)"
      by (simp_all add: e wf_map_Cons)
    from found have "r \<in> set (Map_values es)"
      by (simp add: find_Some_mem)
    with wf have "key_of r \<in> set (Map_keys es)"
      by (rule wf_value_key)
    with fresh have "key_of r \<noteq> k" by auto
    with Cons.IH [OF wf found Cons.prems(3)] False show ?thesis
      by (simp add: e Map_values_def)
  qed
qed


section \<open>What each storage operation does to the state\<close>

lemma getVideo_run: "getVideo k w = (Inr (Map_get k (videos (storage w))), w)"
  by (simp add: getVideo_def)

lemma createVideo_run:
  "createVideo h d w =
     (Inr \<lparr>v_id = uuid_source h (uuid_drawn w), v_title = iv_title d,
           v_originalUrl = nullish (iv_originalUrl d), v_fileName = nullish (iv_fileName d),
           v_duration = nullish (iv_duration d), v_thumbnailUrl = nullish (iv_thumbnailUrl d),
           v_status = or_default (iv_status d) ''uploading'',
           v_createdAt = Some (date_source h (dates_read w))\<rparr>,
      w\<lparr>storage := (storage w)\<lparr>videos :=
            Map_set (uuid_source h (uuid_drawn w))
              \<lparr>v_id = uuid_source h (uuid_drawn w), v_title = iv_title d,
               v_originalUrl = nullish (iv_originalUrl d), v_fileName = nullish (iv_fileName d),
               v_duration = nullish (iv_duration d), v_thumbnailUrl = nullish (iv_thumbnailUrl d),
               v_status = or_default (iv_status d) ''uploading'',
               v_createdAt = Some (date_source h (dates_read w))\<rparr>
              (videos (storage w))\<rparr>,
        uuid_drawn := Suc (uuid_drawn w), dates_read := Suc (dates_read w)\<rparr>)"
  by (simp add: createVideo_def await_def randomUUID_def new_Date_def videos_set_def resolve_def
        Let_def)

lemma updateVideo_run:
  "updateVideo k u w =
     (case Map_get k (videos (storage w)) of
        None \<Rightarrow> (Inl (Error ''Video not found''), w)
      | Some video \<Rightarrow>
          (Inr (spread_video video u),
           w\<lparr>storage := (storage w)\<lparr>videos := Map_set k (spread_video video u) (videos (storage w))\<rparr>\<rparr>))"
  by (simp add: updateVideo_def throw_def await_def videos_set_def resolve_def Let_def
        split: option.splits)

lemma createSummary_run:
  "createSummary h d w =
     (Inr \<lparr>s_id = uuid_source h (uuid_drawn w), s_videoId = is_videoId d, s_content = is_content d,
           s_style = is_style d, s_targetDuration = is_targetDuration d, s_voiceId = is_voiceId d,
           s_speechSpeed = or_default (is_speechSpeed d) ''1.0'', s_audioUrl = None,
           s_finalVideoUrl = None, s_isEdited = Some False,
           s_createdAt = Some (date_source h (dates_read w))\<rparr>,
      w\<lparr>storage := (storage w)\<lparr>summaries :=
            Map_set (uuid_source h (uuid_drawn w))
              \<lparr>s_id = uuid_source h (uuid_drawn w), s_videoId = is_videoId d, s_content = is_content d,
               s_style = is_style d, s_targetDuration = is_targetDuration d, s_voiceId = is_voiceId d,
               s_speechSpeed = or_default (is_speechSpeed d) ''1.0'', s_audioUrl = None,
               s_finalVideoUrl = None, s_isEdited = Some False,
               s_createdAt = Some (date_source h (dates_read w))\<rparr>
              (summaries (storage w))\<rparr>,
        uuid_drawn := Suc (uuid_drawn w), dates_read := Suc (dates_read w)\<rparr>)"
  by (simp add: createSummary_def await_def summaries_set_def new_Date_def randomUUID_def
        resolve_def Let_def)

lemma updateSummary_run:
  "updateSummary k u w =
     (case Map_get k (summaries (storage w)) of
        None \<Rightarrow> (Inl (Error ''Summary not found''), w)
      | Some summary \<Rightarrow>
          (Inr (spread_summary summary u),
           w\<lparr>storage := (storage w)\<lparr>summaries :=
                 Map_set k (spread_summary summary u) (summaries (storage w))\<rparr>\<rparr>))"
  by (simp add: updateSummary_def throw_def await_def summaries_set_def resolve_def Let_def
        split: option.splits)

lemma createProcessingJob_run:
  "createProcessingJob h d w =
     (Inr \<lparr>j_id = uuid_source h (uuid_drawn w), j_videoId = ij_videoId d, j_status = ij_status d,
           j_progress = nullish (ij_progress d), j_currentStep = nullish (ij_currentStep d),
           j_error = nullish (ij_error d), j_result = nullish (ij_result d),
           j_createdAt = Some (date_source h (dates_read w)),
           j_updatedAt = Some (date_source h (Suc (dates_read w)))\<rparr>,
      w\<lparr>storage := (storage w)\<lparr>processingJobs :=
            Map_set (uuid_source h (uuid_drawn w))
              \<lparr>j_id = uuid_source h (uuid_drawn w), j_videoId = ij_videoId d, j_status = ij_status d,
               j_progress = nullish (ij_progress d), j_currentStep = nullish (ij_currentStep d),
               j_error = nullish (ij_error d), j_result = nullish (ij_result d),
               j_createdAt = Some (date_source h (dates_read w)),
               j_updatedAt = Some (date_source h (Suc (dates_read w)))\<rparr>
              (processingJobs (storage w))\<rparr>,
        uuid_drawn := Suc (uuid_drawn w),
        dates_read := Suc (Suc (dates_read w)),
        job_writes := job_writes w @
           [\<lparr>j_id = uuid_source h (uuid_drawn w), j_videoId = ij_videoId d, j_status = ij_status d,
             j_progress = nullish (ij_progress d), j_currentStep = nullish (ij_currentStep d),
             j_error = nullish (ij_error d), j_result = nullish (ij_result d),
             j_createdAt = Some (date_source h (dates_read w)),
             j_updatedAt = Some (date_source h (Suc (dates_read w)))\<rparr>]\<rparr>)"
  by (simp add: createProcessingJob_def await_def processingJobs_set_def new_Date_def randomUUID_def
        resolve_def Let_def)

lemma updateProcessingJob_run:
  "updateProcessingJob h k u w =
     (case Map_get k (processingJobs (storage w)) of
        None \<Rightarrow> (Inl (Error ''Processing job not found''), w)
      | Some job \<Rightarrow>
          (Inr ((spread_job job u)\<lparr>j_updatedAt := Some (date_source h (dates_read w))\<rparr>),
           w\<lparr>storage := (storage w)\<lparr>processingJobs :=
                 Map_set k ((spread_job job u)\<lparr>j_updatedAt := Some (date_source h (dates_read w))\<rparr>)
                   (processingJobs (storage w))\<rparr>,
             dates_read := Suc (dates_read w),
             job_writes := job_writes w @
               [(spread_job job u)\<lparr>j_updatedAt := Some (date_source h (dates_read w))\<rparr>]\<rparr>))"
  by (simp add: updateProcessingJob_def throw_def await_def processingJobs_set_def new_Date_def
        resolve_def Let_def split: option.splits)

text \<open>The spreads the routes and the pipeline perform, as record updates.\<close>

lemma spread_video_metadata:
  "spread_video video (no_video_updates\<lparr>pv_title := Some t, pv_duration := Some d,
      pv_thumbnailUrl := Some th\<rparr>) = video\<lparr>v_title := t, v_duration := d, v_thumbnailUrl := th\<rparr>"
  by (simp add: spread_video_def no_video_updates_def)

lemma spread_video_duration:
  "spread_video video (no_video_updates\<lparr>pv_duration := Some d\<rparr>) = video\<lparr>v_duration := d\<rparr>"
  by (simp add: spread_video_def no_video_updates_def)

lemma spread_video_status:
  "spread_video video (no_video_updates\<lparr>pv_status := Some st\<rparr>) = video\<lparr>v_status := st\<rparr>"
  by (simp add: spread_video_def no_video_updates_def)

lemma spread_summary_content:
  "spread_summary summary (no_summary_updates\<lparr>ps_content := Some c\<rparr>) = summary\<lparr>s_content := c\<rparr>"
  by (simp add: spread_summary_def no_summary_updates_def)

lemma spread_summary_edited:
  "spread_summary summary (no_summary_updates\<lparr>ps_content := Some c, ps_isEdited := Some e\<rparr>) =
     summary\<lparr>s_content := c, s_isEdited := e\<rparr>"
  by (simp add: spread_summary_def no_summary_updates_def)

lemma spread_summary_audio:
  "spread_summary summary (no_summary_updates\<lparr>ps_audioUrl := Some a\<rparr>) = summary\<lparr>s_audioUrl := a\<rparr>"
  by (simp add: spread_summary_def no_summary_updates_def)

lemma spread_summary_final:
  "spread_summary summary (no_summary_updates\<lparr>ps_audioUrl := Some a, ps_finalVideoUrl := Some f\<rparr>) =
     summary\<lparr>s_audioUrl := a, s_finalVideoUrl := f\<rparr>"
  by (simp add: spread_summary_def no_summary_updates_def)

lemma spread_job_progress:
  "spread_job job (no_job_updates\<lparr>pj_progress := Some p, pj_currentStep := Some c\<rparr>) =
     job\<lparr>j_progress := p, j_currentStep := c\<rparr>"
  by (simp add: spread_job_def no_job_updates_def)

lemma spread_job_completed:
  "spread_job job (no_job_updates\<lparr>pj_status := Some st, pj_progress := Some p,
      pj_currentStep := Some c, pj_result := Some r\<rparr>) =
     job\<lparr>j_status := st, j_progress := p, j_currentStep := c, j_result := r\<rparr>"
  by (simp add: spread_job_def no_job_updates_def)

lemma spread_job_failed:
  "spread_job job (no_job_updates\<lparr>pj_status := Some st, pj_error := Some e\<rparr>) =
     job\<lparr>j_status := st, j_error := e\<rparr>"
  by (simp add: spread_job_def no_job_updates_def)

lemmas spreads = spread_video_metadata spread_video_duration spread_video_status
  spread_summary_content spread_summary_edited spread_summary_audio spread_summary_final
  spread_job_progress spread_job_completed spread_job_failed

lemmas runs = getVideo_run updateVideo_run updateSummary_run updateProcessingJob_run
  createProcessingJob_run createSummary_run getSummary_def getProcessingJob_def
  getSummaryByVideoId_def getProcessingJobByVideoId_def invoke_def setTimeout_def throw_def
  resolve_def

lemmas exec = await_def runs Map_get_set Map_set_set Let_def spreads

lemmas scenario = host_ok_def host_empty_summary_def host_no_transcript_def world_empty_def
  world_submitted_def world_running_def world_no_source_def video_v1_def summary_s1_def job_j1_def
  Map_get_def Map_values_def Map_keys_def

section \<open>The record store\<close>

lemma uuid_fresh:
  assumes "inj (uuid_source h)" and "ids_drawn h w"
  shows "uuid_source h (uuid_drawn w) \<notin>
    set (Map_keys (videos (storage w)) @ Map_keys (summaries (storage w))
         @ Map_keys (processingJobs (storage w)))"
proof
  assume "uuid_source h (uuid_drawn w) \<in>
    set (Map_keys (videos (storage w)) @ Map_keys (summaries (storage w))
         @ Map_keys (processingJobs (storage w)))"
  with assms(2) have "uuid_source h (uuid_drawn w) \<in> set (map (uuid_source h) [0..<uuid_drawn w])"
    unfolding ids_drawn_def by blast
  then obtain n where "n < uuid_drawn w" and "uuid_source h (uuid_drawn w) = uuid_source h n"
    by auto
  with assms(1) show False
    by (auto dest: injD)
qed

text \<open>
  C4, as the code has it. For a generator that does not repeat and a store whose keys
  all come from it, \<^verbatim>\<open>createVideo\<close> stores the draft under the identifier that
  \<^verbatim>\<open>randomUUID()\<close> returns, which is distinct from every identifier in the store (of
  a video, a summary or a job), with the optional fields null-coalesced, the creation
  date stamped, and the status of the draft kept unless it is missing or empty, in
  which case it is \<^verbatim>\<open>uploading\<close>. It returns the record; the record goes after the
  existing videos, which are kept, and \<^verbatim>\<open>getVideo\<close> on the returned identifier gives
  the same record back. The status is \<^verbatim>\<open>uploading\<close> or \<^verbatim>\<open>processing\<close> when the draft
  gives no status, an empty one, or one of these two. The keys of the store still all
  come from the generator afterwards.
\<close>

theorem createVideo_stores_record:
  assumes "inj (uuid_source h)" and "ids_drawn h w"
  shows "\<exists>video w'.
     createVideo h draft w = (Inr video, w')
     \<and> v_id video = uuid_source h (uuid_drawn w)
     \<and> v_id video \<notin> set (Map_keys (videos (storage w)))
     \<and> v_id video \<notin> set (Map_keys (summaries (storage w)))
     \<and> v_id video \<notin> set (Map_keys (processingJobs (storage w)))
     \<and> v_title video = iv_title draft
     \<and> v_originalUrl video = nullish (iv_originalUrl draft)
     \<and> v_fileName video = nullish (iv_fileName draft)
     \<and> v_duration video = nullish (iv_duration draft)
     \<and> v_thumbnailUrl video = nullish (iv_thumbnailUrl draft)
     \<and> v_status video =
         (case iv_status draft of None \<Rightarrow> ''uploading''
          | Some s \<Rightarrow> if s = [] then ''uploading'' else s)
     \<and> v_createdAt video = Some (date_source h (dates_read w))
     \<and> videos (storage w') = videos (storage w) @ [(v_id video, video)]
     \<and> getVideo (v_id video) w' = (Inr (Some video), w')
     \<and> (iv_status draft = None \<or> iv_status draft = Some [] \<or>
        iv_status draft = Some ''uploading'' \<or> iv_status draft = Some ''processing'' \<longrightarrow>
          v_status video = ''uploading'' \<or> v_status video = ''processing'')
     \<and> summaries (storage w') = summaries (storage w)
     \<and> processingJobs (storage w') = processingJobs (storage w)
     \<and> ids_drawn h w'"
proof -
  let ?new = "uuid_source h (uuid_drawn w)"
  let ?video = "\<lparr>v_id = ?new, v_title = iv_title draft,
      v_originalUrl = nullish (iv_originalUrl draft), v_fileName = nullish (iv_fileName draft),
      v_duration = nullish (iv_duration draft), v_thumbnailUrl = nullish (iv_thumbnailUrl draft),
      v_status = or_default (iv_status draft) ''uploading'',
      v_createdAt = Some (date_source h (dates_read w))\<rparr>"
  let ?w' = "w\<lparr>storage := (storage w)\<lparr>videos := Map_set ?new ?video (videos (storage w))\<rparr>,
      uuid_drawn := Suc (uuid_drawn w), dates_read := Suc (dates_read w)\<rparr>"
  from uuid_fresh [OF assms]
  have fresh: "?new \<notin> set (Map_keys (videos (storage w)))"
    "?new \<notin> set (Map_keys (summaries (storage w)))"
    "?new \<notin> set (Map_keys (processingJobs (storage w)))"
    by simp_all
  have run: "createVideo h draft w = (Inr ?video, ?w')"
    by (simp add: createVideo_run)
  have lookup: "getVideo ?new ?w' = (Inr (Some ?video), ?w')"
    by (simp add: getVideo_def Map_get_set)
  from fresh(1) have added: "videos (storage ?w') = videos (storage w) @ [(?new, ?video)]"
    by (simp add: Map_set_fresh)
  have others: "summaries (storage ?w') = summaries (storage w)"
    "processingJobs (storage ?w') = processingJobs (storage w)"
    by simp_all
  from assms(2) have drawn: "ids_drawn h ?w'"
    by (auto simp: ids_drawn_def Map_keys_set)
  have status: "v_status ?video =
      (case iv_status draft of None \<Rightarrow> ''uploading''
       | Some s \<Rightarrow> if s = [] then ''uploading'' else s)"
    by (cases "iv_status draft") simp_all
  then have either: "iv_status draft = None \<or> iv_status draft = Some [] \<or>
      iv_status draft = Some ''uploading'' \<or> iv_status draft = Some ''processing'' \<longrightarrow>
      v_status ?video = ''uploading'' \<or> v_status ?video = ''processing''"
    by auto
  have fields: "v_id ?video = ?new" "v_title ?video = iv_title draft"
    "v_originalUrl ?video = nullish (iv_originalUrl draft)"
    "v_fileName ?video = nullish (iv_fileName draft)"
    "v_duration ?video = nullish (iv_duration draft)"
    "v_thumbnailUrl ?video = nullish (iv_thumbnailUrl draft)"
    "v_createdAt ?video = Some (date_source h (dates_read w))"
    by simp_all
  show ?thesis
    apply (rule exI [of _ ?video])
    apply (rule exI [of _ ?w'])
    apply (intro conjI)
    apply (rule run fields(1) fields(2) fields(3) fields(4) fields(5) fields(6) fields(7) status
        added others drawn either
        | simp only: fields(1) fresh not_False_eq_True | simp only: fields(1) lookup)+
    done
qed

theorem createVideo_stores_record_witness:
  "inj (uuid_source host_ok)
   \<and> ids_drawn host_ok world_one_video
   \<and> Map_keys (videos (storage world_one_video)) = [''uuid-'']
   \<and> iv_status draft_upload = Some ''processing''
   \<and> fst (createVideo host_ok draft_upload world_one_video) =
       Inr \<lparr>v_id = ''uuid-i'', v_title = ''clip'', v_originalUrl = None,
            v_fileName = Some ''clip.mp4'', v_duration = None, v_thumbnailUrl = None,
            v_status = ''processing'', v_createdAt = Some 1700000001\<rparr>
   \<and> Map_keys (videos (storage (snd (createVideo host_ok draft_upload world_one_video)))) =
       [''uuid-'', ''uuid-i'']
   \<and> ids_drawn host_ok (snd (createVideo host_ok draft_upload world_one_video))"
proof -
  have gen: "inj (uuid_source host_ok)"
    by (simp add: host_ok_def inj_def)
  have drawn: "ids_drawn host_ok world_one_video"
    by (simp add: ids_drawn_def world_one_video_def scenario)
  have keys: "Map_keys (videos (storage world_one_video)) = [''uuid-'']"
    by (simp add: world_one_video_def scenario)
  have status: "iv_status draft_upload = Some ''processing''"
    by (simp add: draft_upload_def)
  have reply: "fst (createVideo host_ok draft_upload world_one_video) =
       Inr \<lparr>v_id = ''uuid-i'', v_title = ''clip'', v_originalUrl = None,
            v_fileName = Some ''clip.mp4'', v_duration = None, v_thumbnailUrl = None,
            v_status = ''processing'', v_createdAt = Some 1700000001\<rparr>"
    by (simp add: createVideo_run world_one_video_def draft_upload_def scenario)
  from createVideo_stores_record [OF gen drawn, of draft_upload] obtain video w'
    where run: "createVideo host_ok draft_upload world_one_video = (Inr video, w')"
      and added: "videos (storage w') = videos (storage world_one_video) @ [(v_id video, video)]"
      and still: "ids_drawn host_ok w'"
    by blast
  from run reply have "v_id video = ''uuid-i''"
    by auto
  with run added still keys have
    "Map_keys (videos (storage (snd (createVideo host_ok draft_upload world_one_video)))) =
       [''uuid-'', ''uuid-i'']"
    "ids_drawn host_ok (snd (createVideo host_ok draft_upload world_one_video))"
    by (simp_all add: Map_keys_def)
  with gen drawn keys status reply show ?thesis
    by simp
qed

text \<open>
  C4 as stated fails on the status: a draft whose status is \<^verbatim>\<open>completed\<close> is stored
  and read back with that status.
\<close>

theorem createVideo_status_counterexample:
  "fst (createVideo host_ok draft_completed world_empty) =
     Inr \<lparr>v_id = ''uuid-'', v_title = ''clip'', v_originalUrl = None,
          v_fileName = Some ''clip.mp4'', v_duration = None, v_thumbnailUrl = None,
          v_status = ''completed'', v_createdAt = Some 1700000000\<rparr>
   \<and> fst (getVideo ''uuid-'' (snd (createVideo host_ok draft_completed world_empty))) =
     Inr (Some \<lparr>v_id = ''uuid-'', v_title = ''clip'', v_originalUrl = None,
          v_fileName = Some ''clip.mp4'', v_duration = None, v_thumbnailUrl = None,
          v_status = ''completed'', v_createdAt = Some 1700000000\<rparr>)
   \<and> ''completed'' \<noteq> ''uploading'' \<and> ''completed'' \<noteq> ''processing''"
  by (simp add: createVideo_run getVideo_def scenario draft_completed_def)

text \<open>
  C5. Each of \<^verbatim>\<open>getVideo\<close>, \<^verbatim>\<open>getSummary\<close> and \<^verbatim>\<open>getProcessingJob\<close> settles with a
  value on every state and every identifier, and leaves the state as it was: the value
  is the record of the map's entry for the identifier when there is one, and the
  not-found value when the identifier is not among the map's keys.
\<close>

theorem lookups_return_record_or_undefined:
  "(\<exists>found. getVideo ident w = (Inr found, w)
      \<and> map_option (Pair ident) found = find (\<lambda>e. fst e = ident) (videos (storage w))
      \<and> (found = None) = (ident \<notin> set (Map_keys (videos (storage w)))))
   \<and> (\<exists>found. getSummary ident w = (Inr found, w)
      \<and> map_option (Pair ident) found = find (\<lambda>e. fst e = ident) (summaries (storage w))
      \<and> (found = None) = (ident \<notin> set (Map_keys (summaries (storage w)))))
   \<and> (\<exists>found. getProcessingJob ident w = (Inr found, w)
      \<and> map_option (Pair ident) found = find (\<lambda>e. fst e = ident) (processingJobs (storage w))
      \<and> (found = None) = (ident \<notin> set (Map_keys (processingJobs (storage w)))))"
  by (simp add: getVideo_def getSummary_def getProcessingJob_def Map_get_first Map_get_None_iff)

lemma over_case: "over old given = (case given of None \<Rightarrow> old | Some new \<Rightarrow> new)"
  by (cases given) simp_all

text \<open>
  C6. On an identifier that is not in the map, each of \<^verbatim>\<open>updateVideo\<close>,
  \<^verbatim>\<open>updateSummary\<close> and \<^verbatim>\<open>updateProcessingJob\<close> rejects with its not-found error and
  leaves the whole state as it was. On an identifier that is in the map, each returns
  a record every property of which is the one given in the updates when the updates
  give it, and the one of the stored record when they do not; it stores that record
  under the same key (a lookup returns it, the other keys and the other two maps are
  as before). \<^verbatim>\<open>updateProcessingJob\<close> sets \<^verbatim>\<open>updatedAt\<close> to the date it reads, whatever
  the updates say, and merges the other properties in the same way.
\<close>

theorem updates_merge_or_not_found:
  "(ident \<notin> set (Map_keys (videos (storage w))) \<longrightarrow>
      updateVideo ident uv w = (Inl (Error ''Video not found''), w))
   \<and> (\<forall>video. Map_get ident (videos (storage w)) = Some video \<longrightarrow>
        (\<exists>video' w'. updateVideo ident uv w = (Inr video', w')
           \<and> v_id video' = (case pv_id uv of None \<Rightarrow> v_id video | Some x \<Rightarrow> x)
           \<and> v_title video' = (case pv_title uv of None \<Rightarrow> v_title video | Some x \<Rightarrow> x)
           \<and> v_originalUrl video' =
               (case pv_originalUrl uv of None \<Rightarrow> v_originalUrl video | Some x \<Rightarrow> x)
           \<and> v_fileName video' = (case pv_fileName uv of None \<Rightarrow> v_fileName video | Some x \<Rightarrow> x)
           \<and> v_duration video' = (case pv_duration uv of None \<Rightarrow> v_duration video | Some x \<Rightarrow> x)
           \<and> v_thumbnailUrl video' =
               (case pv_thumbnailUrl uv of None \<Rightarrow> v_thumbnailUrl video | Some x \<Rightarrow> x)
           \<and> v_status video' = (case pv_status uv of None \<Rightarrow> v_status video | Some x \<Rightarrow> x)
           \<and> v_createdAt video' =
               (case pv_createdAt uv of None \<Rightarrow> v_createdAt video | Some x \<Rightarrow> x)
           \<and> getVideo ident w' = (Inr (Some video'), w')
           \<and> (\<forall>k. k \<noteq> ident \<longrightarrow> Map_get k (videos (storage w')) = Map_get k (videos (storage w)))
           \<and> Map_keys (videos (storage w')) = Map_keys (videos (storage w))
           \<and> summaries (storage w') = summaries (storage w)
           \<and> processingJobs (storage w') = processingJobs (storage w)))
   \<and> (ident \<notin> set (Map_keys (summaries (storage w))) \<longrightarrow>
      updateSummary ident us w = (Inl (Error ''Summary not found''), w))
   \<and> (\<forall>summary. Map_get ident (summaries (storage w)) = Some summary \<longrightarrow>
        (\<exists>summary' w'. updateSummary ident us w = (Inr summary', w')
           \<and> s_id summary' = (case ps_id us of None \<Rightarrow> s_id summary | Some x \<Rightarrow> x)
           \<and> s_videoId summary' = (case ps_videoId us of None \<Rightarrow> s_videoId summary | Some x \<Rightarrow> x)
           \<and> s_content summary' = (case ps_content us of None \<Rightarrow> s_content summary | Some x \<Rightarrow> x)
           \<and> s_style summary' = (case ps_style us of None \<Rightarrow> s_style summary | Some x \<Rightarrow> x)
           \<and> s_targetDuration summary' =
               (case ps_targetDuration us of None \<Rightarrow> s_targetDuration summary | Some x \<Rightarrow> x)
           \<and> s_voiceId summary' = (case ps_voiceId us of None \<Rightarrow> s_voiceId summary | Some x \<Rightarrow> x)
           \<and> s_speechSpeed summary' =
               (case ps_speechSpeed us of None \<Rightarrow> s_speechSpeed summary | Some x \<Rightarrow> x)
           \<and> s_audioUrl summary' = (case ps_audioUrl us of None \<Rightarrow> s_audioUrl summary | Some x \<Rightarrow> x)
           \<and> s_finalVideoUrl summary' =
               (case ps_finalVideoUrl us of None \<Rightarrow> s_finalVideoUrl summary | Some x \<Rightarrow> x)
           \<and> s_isEdited summary' = (case ps_isEdited us of None \<Rightarrow> s_isEdited summary | Some x \<Rightarrow> x)
           \<and> s_createdAt summary' =
               (case ps_createdAt us of None \<Rightarrow> s_createdAt summary | Some x \<Rightarrow> x)
           \<and> getSummary ident w' = (Inr (Some summary'), w')
           \<and> (\<forall>k. k \<noteq> ident \<longrightarrow>
                 Map_get k (summaries (storage w')) = Map_get k (summaries (storage w)))
           \<and> Map_keys (summaries (storage w')) = Map_keys (summaries (storage w))
           \<and> videos (storage w') = videos (storage w)
           \<and> processingJobs (storage w') = processingJobs (storage w)))
   \<and> (ident \<notin> set (Map_keys (processingJobs (storage w))) \<longrightarrow>
      updateProcessingJob h ident uj w = (Inl (Error ''Processing job not found''), w))
   \<and> (\<forall>job. Map_get ident (processingJobs (storage w)) = Some job \<longrightarrow>
        (\<exists>job' w'. updateProcessingJob h ident uj w = (Inr job', w')
           \<and> j_id job' = (case pj_id uj of None \<Rightarrow> j_id job | Some x \<Rightarrow> x)
           \<and> j_videoId job' = (case pj_videoId uj of None \<Rightarrow> j_videoId job | Some x \<Rightarrow> x)
           \<and> j_status job' = (case pj_status uj of None \<Rightarrow> j_status job | Some x \<Rightarrow> x)
           \<and> j_progress job' = (case pj_progress uj of None \<Rightarrow> j_progress job | Some x \<Rightarrow> x)
           \<and> j_currentStep job' =
               (case pj_currentStep uj of None \<Rightarrow> j_currentStep job | Some x \<Rightarrow> x)
           \<and> j_error job' = (case pj_error uj of None \<Rightarrow> j_error job | Some x \<Rightarrow> x)
           \<and> j_result job' = (case pj_result uj of None \<Rightarrow> j_result job | Some x \<Rightarrow> x)
           \<and> j_createdAt job' = (case pj_createdAt uj of None \<Rightarrow> j_createdAt job | Some x \<Rightarrow> x)
           \<and> j_updatedAt job' = Some (date_source h (dates_read w))
           \<and> dates_read w' = Suc (dates_read w)
           \<and> getProcessingJob ident w' = (Inr (Some job'), w')
           \<and> (\<forall>k. k \<noteq> ident \<longrightarrow>
                 Map_get k (processingJobs (storage w')) = Map_get k (processingJobs (storage w)))
           \<and> Map_keys (processingJobs (storage w')) = Map_keys (processingJobs (storage w))
           \<and> videos (storage w') = videos (storage w)
           \<and> summaries (storage w') = summaries (storage w)))"
proof (intro conjI)
  show "ident \<notin> set (Map_keys (videos (storage w))) \<longrightarrow>
      updateVideo ident uv w = (Inl (Error ''Video not found''), w)"
    by (simp add: updateVideo_run Map_get_None_iff [symmetric])
  show "ident \<notin> set (Map_keys (summaries (storage w))) \<longrightarrow>
      updateSummary ident us w = (Inl (Error ''Summary not found''), w)"
    by (simp add: updateSummary_run Map_get_None_iff [symmetric])
  show "ident \<notin> set (Map_keys (processingJobs (storage w))) \<longrightarrow>
      updateProcessingJob h ident uj w = (Inl (Error ''Processing job not found''), w)"
    by (simp add: updateProcessingJob_run Map_get_None_iff [symmetric])
qed (simp_all add: updateVideo_run updateSummary_run updateProcessingJob_run getVideo_def
      getSummary_def getProcessingJob_def Map_get_set Map_keys_set_present
      spread_video_def spread_summary_def spread_job_def over_case)

theorem updates_merge_or_not_found_witness:
  "''zz'' \<notin> set (Map_keys (videos (storage world_running)))
   \<and> fst (updateVideo ''zz''
        (no_video_updates\<lparr>pv_title := Some ''Talk'', pv_duration := Some (Some 120),
                           pv_status := Some ''failed''\<rparr>) world_running) =
       Inl (Error ''Video not found'')
   \<and> snd (updateVideo ''zz''
        (no_video_updates\<lparr>pv_title := Some ''Talk'', pv_duration := Some (Some 120),
                           pv_status := Some ''failed''\<rparr>) world_running) =
       world_running
   \<and> fst (updateSummary ''zz''
        (no_summary_updates\<lparr>ps_content := Some ''text'', ps_audioUrl := Some None\<rparr>) world_running) =
       Inl (Error ''Summary not found'')
   \<and> fst (updateProcessingJob host_ok ''zz''
        (no_job_updates\<lparr>pj_progress := Some (Some 30), pj_updatedAt := Some (Some 5)\<rparr>)
        world_running) = Inl (Error ''Processing job not found'')
   \<and> Map_get ''v1'' (videos (storage world_running)) = Some video_v1
   \<and> fst (updateVideo ''v1''
        (no_video_updates\<lparr>pv_title := Some ''Talk'', pv_duration := Some (Some 120),
                           pv_status := Some ''failed''\<rparr>) world_running) =
       Inr \<lparr>v_id = ''v1'', v_title = ''Talk'', v_originalUrl = Some ''https://youtu.be/x'',
            v_fileName = None, v_duration = Some 120, v_thumbnailUrl = None,
            v_status = ''failed'', v_createdAt = Some 1600000000\<rparr>
   \<and> Map_get ''s1'' (summaries (storage world_running)) = Some summary_s1
   \<and> fst (updateSummary ''s1''
        (no_summary_updates\<lparr>ps_content := Some ''text'', ps_audioUrl := Some None\<rparr>) world_running) =
       Inr \<lparr>s_id = ''s1'', s_videoId = ''v1'', s_content = ''text'', s_style = ''entertaining'',
            s_targetDuration = 30, s_voiceId = ''nova'', s_speechSpeed = ''1.1'',
            s_audioUrl = None, s_finalVideoUrl = None, s_isEdited = Some False,
            s_createdAt = Some 1600000001\<rparr>
   \<and> Map_get ''j1'' (processingJobs (storage world_running)) = Some job_j1
   \<and> fst (updateProcessingJob host_ok ''j1''
        (no_job_updates\<lparr>pj_progress := Some (Some 30), pj_updatedAt := Some (Some 5)\<rparr>)
        world_running) =
       Inr \<lparr>j_id = ''j1'', j_videoId = ''v1'', j_status = ''processing'', j_progress = Some 30,
            j_currentStep = Some ''analyzing'', j_error = None, j_result = None,
            j_createdAt = Some 1600000002, j_updatedAt = Some 1700000000\<rparr>"
proof -
  let ?uv = "no_video_updates\<lparr>pv_title := Some ''Talk'', pv_duration := Some (Some 120),
      pv_status := Some ''failed''\<rparr>"
  let ?us = "no_summary_updates\<lparr>ps_content := Some ''text'', ps_audioUrl := Some None\<rparr>"
  let ?uj = "no_job_updates\<lparr>pj_progress := Some (Some 30), pj_updatedAt := Some (Some 5)\<rparr>"
  have absent:
    "''zz'' \<notin> set (Map_keys (videos (storage world_running)))"
    "''zz'' \<notin> set (Map_keys (summaries (storage world_running)))"
    "''zz'' \<notin> set (Map_keys (processingJobs (storage world_running)))"
    by (simp_all add: scenario)
  have present:
    "Map_get ''v1'' (videos (storage world_running)) = Some video_v1"
    "Map_get ''s1'' (summaries (storage world_running)) = Some summary_s1"
    "Map_get ''j1'' (processingJobs (storage world_running)) = Some job_j1"
    by (simp_all add: scenario)
  note at_zz = updates_merge_or_not_found [of "''zz''" world_running ?uv ?us host_ok ?uj]
  note at_v1 = updates_merge_or_not_found [of "''v1''" world_running ?uv ?us host_ok ?uj]
  note at_s1 = updates_merge_or_not_found [of "''s1''" world_running ?uv ?us host_ok ?uj]
  note at_j1 = updates_merge_or_not_found [of "''j1''" world_running ?uv ?us host_ok ?uj]
  have missing:
    "updateVideo ''zz'' ?uv world_running = (Inl (Error ''Video not found''), world_running)"
    "updateSummary ''zz'' ?us world_running = (Inl (Error ''Summary not found''), world_running)"
    "updateProcessingJob host_ok ''zz'' ?uj world_running =
       (Inl (Error ''Processing job not found''), world_running)"
    by (rule at_zz [THEN conjunct1, rule_format, OF absent(1)]
        at_zz [THEN conjunct2, THEN conjunct2, THEN conjunct1, rule_format, OF absent(2)]
        at_zz [THEN conjunct2, THEN conjunct2, THEN conjunct2, THEN conjunct2, THEN conjunct1,
          rule_format, OF absent(3)])+
  from at_v1 [THEN conjunct2, THEN conjunct1, rule_format, OF present(1)]
  obtain video' wv where v: "updateVideo ''v1'' ?uv world_running = (Inr video', wv)"
    and vf: "v_id video' = (case pv_id ?uv of None \<Rightarrow> v_id video_v1 | Some x \<Rightarrow> x)"
      "v_title video' = (case pv_title ?uv of None \<Rightarrow> v_title video_v1 | Some x \<Rightarrow> x)"
      "v_originalUrl video' =
         (case pv_originalUrl ?uv of None \<Rightarrow> v_originalUrl video_v1 | Some x \<Rightarrow> x)"
      "v_fileName video' = (case pv_fileName ?uv of None \<Rightarrow> v_fileName video_v1 | Some x \<Rightarrow> x)"
      "v_duration video' = (case pv_duration ?uv of None \<Rightarrow> v_duration video_v1 | Some x \<Rightarrow> x)"
      "v_thumbnailUrl video' =
         (case pv_thumbnailUrl ?uv of None \<Rightarrow> v_thumbnailUrl video_v1 | Some x \<Rightarrow> x)"
      "v_status video' = (case pv_status ?uv of None \<Rightarrow> v_status video_v1 | Some x \<Rightarrow> x)"
      "v_createdAt video' =
         (case pv_createdAt ?uv of None \<Rightarrow> v_createdAt video_v1 | Some x \<Rightarrow> x)"
    by (elim exE conjE) (rule that)
  from vf have video: "video' =
      \<lparr>v_id = ''v1'', v_title = ''Talk'', v_originalUrl = Some ''https://youtu.be/x'',
       v_fileName = None, v_duration = Some 120, v_thumbnailUrl = None,
       v_status = ''failed'', v_createdAt = Some 1600000000\<rparr>"
    by (cases video') (simp add: no_video_updates_def video_v1_def)
  from at_s1 [THEN conjunct2, THEN conjunct2, THEN conjunct2, THEN conjunct1, rule_format,
      OF present(2)]
  obtain summary' ws where s: "updateSummary ''s1'' ?us world_running = (Inr summary', ws)"
    and sf: "s_id summary' = (case ps_id ?us of None \<Rightarrow> s_id summary_s1 | Some x \<Rightarrow> x)"
      "s_videoId summary' = (case ps_videoId ?us of None \<Rightarrow> s_videoId summary_s1 | Some x \<Rightarrow> x)"
      "s_content summary' = (case ps_content ?us of None \<Rightarrow> s_content summary_s1 | Some x \<Rightarrow> x)"
      "s_style summary' = (case ps_style ?us of None \<Rightarrow> s_style summary_s1 | Some x \<Rightarrow> x)"
      "s_targetDuration summary' =
         (case ps_targetDuration ?us of None \<Rightarrow> s_targetDuration summary_s1 | Some x \<Rightarrow> x)"
      "s_voiceId summary' = (case ps_voiceId ?us of None \<Rightarrow> s_voiceId summary_s1 | Some x \<Rightarrow> x)"
      "s_speechSpeed summary' =
         (case ps_speechSpeed ?us of None \<Rightarrow> s_speechSpeed summary_s1 | Some x \<Rightarrow> x)"
      "s_audioUrl summary' = (case ps_audioUrl ?us of None \<Rightarrow> s_audioUrl summary_s1 | Some x \<Rightarrow> x)"
      "s_finalVideoUrl summary' =
         (case ps_finalVideoUrl ?us of None \<Rightarrow> s_finalVideoUrl summary_s1 | Some x \<Rightarrow> x)"
      "s_isEdited summary' = (case ps_isEdited ?us of None \<Rightarrow> s_isEdited summary_s1 | Some x \<Rightarrow> x)"
      "s_createdAt summary' =
         (case ps_createdAt ?us of None \<Rightarrow> s_createdAt summary_s1 | Some x \<Rightarrow> x)"
    by (elim exE conjE) (rule that)
  from sf have summary: "summary' =
      \<lparr>s_id = ''s1'', s_videoId = ''v1'', s_content = ''text'', s_style = ''entertaining'',
       s_targetDuration = 30, s_voiceId = ''nova'', s_speechSpeed = ''1.1'',
       s_audioUrl = None, s_finalVideoUrl = None, s_isEdited = Some False,
       s_createdAt = Some 1600000001\<rparr>"
    by (cases summary') (simp add: no_summary_updates_def summary_s1_def)
  from at_j1 [THEN conjunct2, THEN conjunct2, THEN conjunct2, THEN conjunct2, THEN conjunct2,
      rule_format, OF present(3)]
  obtain job' wj where j: "updateProcessingJob host_ok ''j1'' ?uj world_running = (Inr job', wj)"
    and jf: "j_id job' = (case pj_id ?uj of None \<Rightarrow> j_id job_j1 | Some x \<Rightarrow> x)"
      "j_videoId job' = (case pj_videoId ?uj of None \<Rightarrow> j_videoId job_j1 | Some x \<Rightarrow> x)"
      "j_status job' = (case pj_status ?uj of None \<Rightarrow> j_status job_j1 | Some x \<Rightarrow> x)"
      "j_progress job' = (case pj_progress ?uj of None \<Rightarrow> j_progress job_j1 | Some x \<Rightarrow> x)"
      "j_currentStep job' =
         (case pj_currentStep ?uj of None \<Rightarrow> j_currentStep job_j1 | Some x \<Rightarrow> x)"
      "j_error job' = (case pj_error ?uj of None \<Rightarrow> j_error job_j1 | Some x \<Rightarrow> x)"
      "j_result job' = (case pj_result ?uj of None \<Rightarrow> j_result job_j1 | Some x \<Rightarrow> x)"
      "j_createdAt job' = (case pj_createdAt ?uj of None \<Rightarrow> j_createdAt job_j1 | Some x \<Rightarrow> x)"
      "j_updatedAt job' = Some (date_source host_ok (dates_read world_running))"
    by (elim exE conjE) (rule that)
  from jf have job: "job' =
      \<lparr>j_id = ''j1'', j_videoId = ''v1'', j_status = ''processing'', j_progress = Some 30,
       j_currentStep = Some ''analyzing'', j_error = None, j_result = None,
       j_createdAt = Some 1600000002, j_updatedAt = Some 1700000000\<rparr>"
    by (cases job') (simp add: no_job_updates_def job_j1_def scenario)
  from absent(1) present missing v s j show ?thesis
    by (simp add: video summary job)
qed

section \<open>The summary routes\<close>

lemma wf_get_key: "wf_map key_of m \<Longrightarrow> Map_get k m = Some r \<Longrightarrow> key_of r = k"
  by (auto simp: wf_map_def Map_get_def list_all_iff dest: map_of_SomeD)

text \<open>
  C7. For a Summary stored under the identifier and a request body whose \<^verbatim>\<open>content\<close>
  is a non-empty string, \<^verbatim>\<open>PATCH /api/summaries/:id\<close> answers with the Summary with
  that content and \<^verbatim>\<open>isEdited\<close> true and every other field as before, and a lookup by
  the identifier then returns exactly this record. When the Summary was the one the
  status route showed for its video, it still is. Videos and jobs are untouched.
\<close>

theorem patch_summary_sets_edited:
  assumes "Map_get ident (summaries (storage w)) = Some summary"
    and "content \<noteq> []"
    and "map_of properties ''content'' = Some (JString content)"
  shows "\<exists>w'. patch_summary issue ident (JObject properties) w =
            (Json (summary\<lparr>s_content := content, s_isEdited := Some True\<rparr>), w')
     \<and> getSummary ident w' =
            (Inr (Some (summary\<lparr>s_content := content, s_isEdited := Some True\<rparr>)), w')
     \<and> (wf_map s_id (summaries (storage w))
          \<and> getSummaryByVideoId (s_videoId summary) w = (Inr (Some summary), w) \<longrightarrow>
        getSummaryByVideoId (s_videoId summary) w' =
            (Inr (Some (summary\<lparr>s_content := content, s_isEdited := Some True\<rparr>)), w'))
     \<and> videos (storage w') = videos (storage w)
     \<and> processingJobs (storage w') = processingJobs (storage w)"
proof -
  let ?new = "summary\<lparr>s_content := content, s_isEdited := Some True\<rparr>"
  let ?w' = "w\<lparr>storage := (storage w)\<lparr>summaries := Map_set ident ?new (summaries (storage w))\<rparr>\<rparr>"
  from assms have reply: "patch_summary issue ident (JObject properties) w = (Json ?new, ?w')"
    by (simp add: patch_summary_def await_def updateSummary_run spreads Suc_le_eq)
  have lookup: "getSummary ident ?w' = (Inr (Some ?new), ?w')"
    by (simp add: getSummary_def Map_get_set)
  have shown: "getSummaryByVideoId (s_videoId summary) ?w' = (Inr (Some ?new), ?w')"
    if wf: "wf_map s_id (summaries (storage w))"
      and first: "getSummaryByVideoId (s_videoId summary) w = (Inr (Some summary), w)"
  proof -
    from wf assms(1) have key: "s_id summary = ident"
      by (rule wf_get_key)
    from first have "find (\<lambda>s. s_videoId s = s_videoId summary)
        (Map_values (summaries (storage w))) = Some summary"
      by (simp add: getSummaryByVideoId_def)
    from find_Map_set_same [OF wf this, of ?new] key show ?thesis
      by (simp add: getSummaryByVideoId_def)
  qed
  from reply lookup shown show ?thesis
    by (intro exI [of _ ?w']) simp
qed

theorem patch_summary_sets_edited_witness:
  "Map_get ''s1'' (summaries (storage world_submitted)) = Some summary_s1
   \<and> ''Hi there'' \<noteq> []
   \<and> map_of [(''content'', JString ''Hi there'')] ''content'' = Some (JString ''Hi there'')
   \<and> wf_map s_id (summaries (storage world_submitted))
   \<and> fst (patch_summary ''invalid'' ''s1'' (JObject [(''content'', JString ''Hi there'')])
          world_submitted) =
       Json (summary_s1\<lparr>s_content := ''Hi there'', s_isEdited := Some True\<rparr>)
   \<and> fst (getSummaryByVideoId ''v1''
          (snd (patch_summary ''invalid'' ''s1'' (JObject [(''content'', JString ''Hi there'')])
             world_submitted))) =
       Inr (Some (summary_s1\<lparr>s_content := ''Hi there'', s_isEdited := Some True\<rparr>))"
proof -
  have pre: "Map_get ''s1'' (summaries (storage world_submitted)) = Some summary_s1"
    "''Hi there'' \<noteq> []"
    "map_of [(''content'', JString ''Hi there'')] ''content'' = Some (JString ''Hi there'')"
    by (simp_all add: scenario)
  have wf: "wf_map s_id (summaries (storage world_submitted))"
    by (simp add: wf_map_def scenario)
  have first: "getSummaryByVideoId (s_videoId summary_s1) world_submitted =
      (Inr (Some summary_s1), world_submitted)"
    by (simp add: getSummaryByVideoId_def scenario)
  have video: "s_videoId summary_s1 = ''v1''"
    by (simp add: summary_s1_def)
  from patch_summary_sets_edited [OF pre, of "''invalid''"] wf first pre show ?thesis
    by (auto simp: video)
qed

text \<open>
  C8, as the code has it. For a Summary stored under its own identifier, when speech
  synthesis and the file write succeed, \<^verbatim>\<open>POST /api/summaries/:id/regenerate-audio\<close>
  sets the Summary's audio reference to the path \<^verbatim>\<open>temp/<videoId>_speech_updated.mp3\<close>
  under the working directory, and leaves the content and every other field as they
  were. The path depends on the Summary's video identifier only, so every
  regeneration for a Summary stores the same reference.
\<close>

theorem regenerate_audio_sets_fixed_path:
  assumes "Map_get ident (summaries (storage w)) = Some summary"
    and "s_id summary = ident"
    and "generateSpeech h (s_content summary) (s_voiceId summary) (s_speechSpeed summary) = Inr speech"
    and "writeFile h (path_join h [cwd h, ''temp'', s_videoId summary @ ''_speech_updated.mp3''])
           speech = Inr ()"
  shows "\<exists>w'. regenerate_audio h ident w =
            (Json (summary\<lparr>s_audioUrl :=
               Some (path_join h [cwd h, ''temp'', s_videoId summary @ ''_speech_updated.mp3''])\<rparr>), w')
     \<and> getSummary ident w' =
            (Inr (Some (summary\<lparr>s_audioUrl :=
               Some (path_join h [cwd h, ''temp'', s_videoId summary @ ''_speech_updated.mp3''])\<rparr>)), w')
     \<and> Map_keys (summaries (storage w')) = Map_keys (summaries (storage w))
     \<and> (\<forall>k. k \<noteq> ident \<longrightarrow>
           Map_get k (summaries (storage w')) = Map_get k (summaries (storage w)))
     \<and> videos (storage w') = videos (storage w)
     \<and> processingJobs (storage w') = processingJobs (storage w)"
  using assms
  by (simp add: regenerate_audio_def exec Map_keys_set_present)

theorem regenerate_audio_sets_fixed_path_witness:
  "Map_get ''s1'' (summaries (storage world_submitted)) = Some summary_s1
   \<and> s_id summary_s1 = ''s1''
   \<and> generateSpeech host_ok (s_content summary_s1) (s_voiceId summary_s1) (s_speechSpeed summary_s1) =
       Inr ''MP3''
   \<and> writeFile host_ok ''/app/temp/v1_speech_updated.mp3'' ''MP3'' = Inr ()
   \<and> fst (regenerate_audio host_ok ''s1'' world_submitted) =
       Json (summary_s1\<lparr>s_audioUrl := Some ''/app/temp/v1_speech_updated.mp3''\<rparr>)"
proof -
  have pre: "Map_get ''s1'' (summaries (storage world_submitted)) = Some summary_s1"
    "s_id summary_s1 = ''s1''"
    "generateSpeech host_ok (s_content summary_s1) (s_voiceId summary_s1) (s_speechSpeed summary_s1) =
       Inr ''MP3''"
    "writeFile host_ok
       (path_join host_ok [cwd host_ok, ''temp'', s_videoId summary_s1 @ ''_speech_updated.mp3''])
       ''MP3'' = Inr ()"
    by (simp_all add: scenario)
  have path: "path_join host_ok [cwd host_ok, ''temp'', s_videoId summary_s1 @ ''_speech_updated.mp3''] =
      ''/app/temp/v1_speech_updated.mp3''"
    by (simp add: scenario)
  from regenerate_audio_sets_fixed_path [OF pre] pre show ?thesis
    by (auto simp: path)
qed

text \<open>
  C8 as stated fails on the second regeneration: the reference it stores is the one
  the first regeneration had stored on the Summary.
\<close>

theorem regenerate_audio_same_reference_counterexample:
  "map_option s_audioUrl
     (Map_get ''s1'' (summaries (storage (snd (regenerate_audio host_ok ''s1'' world_submitted))))) =
     Some (Some ''/app/temp/v1_speech_updated.mp3'')
   \<and> fst (regenerate_audio host_ok ''s1'' (snd (regenerate_audio host_ok ''s1'' world_submitted))) =
     Json (summary_s1\<lparr>s_audioUrl := Some ''/app/temp/v1_speech_updated.mp3''\<rparr>)"
  by (simp add: regenerate_audio_def exec scenario)

section \<open>The content pipeline\<close>

lemma processVideo_of_try_success:
  "processVideo_try h videoId w = (Inr (), w') \<Longrightarrow> processVideo h videoId w = (Inr (), w')"
  by (simp add: processVideo_def try_catch_def)

lemma processVideo_of_try_failure:
  "processVideo_try h videoId w = (Inl e, w1) \<Longrightarrow>
     processVideo h videoId w = processVideo_catch h videoId e w1"
  by (simp add: processVideo_def try_catch_def)

subsection \<open>A run that completes\<close>







text \<open>
  C10. When the body of \<^verbatim>\<open>processVideo\<close> completes and a Summary for the video was in
  the store before the run, the run adds and removes no Summary, and every Summary
  that was in the store is afterwards, under the same key, the same record except
  possibly for \<^verbatim>\<open>content\<close>, \<^verbatim>\<open>audioUrl\<close> and \<^verbatim>\<open>finalVideoUrl\<close>: \<^verbatim>\<open>id\<close>, \<^verbatim>\<open>videoId\<close>,
  \<^verbatim>\<open>style\<close>, \<^verbatim>\<open>targetDuration\<close>, \<^verbatim>\<open>voiceId\<close>, \<^verbatim>\<open>speechSpeed\<close>, \<^verbatim>\<open>isEdited\<close> and
  \<^verbatim>\<open>createdAt\<close> are as before. Summaries under other keys than the identifier of the
  video's first Summary are not written at all.
\<close>

theorem pipeline_summary_frame:
  assumes run: "processVideo_try h videoId w = (Inr (), w')"
    and ex: "getSummaryByVideoId videoId w = (Inr (Some s0), w)"
  shows "processVideo h videoId w = (Inr (), w')
    \<and> Map_keys (summaries (storage w')) = Map_keys (summaries (storage w))
    \<and> (\<forall>k s. Map_get k (summaries (storage w)) = Some s \<longrightarrow>
         (\<exists>s'. Map_get k (summaries (storage w')) = Some s'
            \<and> s' = s\<lparr>s_content := s_content s', s_audioUrl := s_audioUrl s',
                      s_finalVideoUrl := s_finalVideoUrl s'\<rparr>
            \<and> (k \<noteq> s_id s0 \<longrightarrow> s' = s)))"
  using assms processVideo_of_try_success [OF run] unfolding processVideo_try_def
  by (auto simp: exec Map_keys_set_present split: option.splits sum.splits)

theorem pipeline_summary_frame_witness:
  "fst (processVideo_try host_ok ''v1'' world_submitted) = Inr ()
   \<and> fst (getSummaryByVideoId ''v1'' world_submitted) = Inr (Some summary_s1)
   \<and> Map_get ''s1'' (summaries (storage world_submitted)) = Some summary_s1
   \<and> map_option (\<lambda>s. (s_id s, s_videoId s, s_style s, s_targetDuration s, s_voiceId s,
          s_speechSpeed s, s_isEdited s))
        (Map_get ''s1'' (summaries (storage (snd (processVideo_try host_ok ''v1'' world_submitted))))) =
       Some (''s1'', ''v1'', ''entertaining'', 30, ''nova'', ''1.1'', Some False)"
proof -
  let ?w' = "snd (processVideo_try host_ok ''v1'' world_submitted)"
  have completes: "fst (processVideo_try host_ok ''v1'' world_submitted) = Inr ()"
    by (simp add: processVideo_try_def exec scenario)
  then have run: "processVideo_try host_ok ''v1'' world_submitted = (Inr (), ?w')"
    by (simp add: prod_eq_iff)
  have ex: "getSummaryByVideoId ''v1'' world_submitted = (Inr (Some summary_s1), world_submitted)"
    by (simp add: getSummaryByVideoId_def scenario)
  have stored: "Map_get ''s1'' (summaries (storage world_submitted)) = Some summary_s1"
    by (simp add: scenario)
  from pipeline_summary_frame [OF run ex] stored
  obtain s' where after: "Map_get ''s1'' (summaries (storage ?w')) = Some s'"
    and frame: "s' = summary_s1\<lparr>s_content := s_content s', s_audioUrl := s_audioUrl s',
                      s_finalVideoUrl := s_finalVideoUrl s'\<rparr>"
    by blast
  from frame have "(s_id s', s_videoId s', s_style s', s_targetDuration s', s_voiceId s',
      s_speechSpeed s', s_isEdited s') =
      (''s1'', ''v1'', ''entertaining'', 30, ''nova'', ''1.1'', Some False)"
    by (cases s') (simp add: summary_s1_def)
  with completes ex stored after show ?thesis
    by simp
qed

subsection \<open>A run for a video that is not stored\<close>

text \<open>
  C9. When no video is stored under the identifier, the body of \<^verbatim>\<open>processVideo\<close>
  throws the not-found error at once, with the state untouched, and the promise of
  \<^verbatim>\<open>processVideo\<close> is what the handler makes of that error: it rejects. The run draws
  no identifier and stores no new job (the keys of the job map are as before), calls
  no service, sets no timer, and leaves the videos and the summaries as they were.
  When no job is recorded for the identifier the whole state is as before, and the
  rejection is the not-found error of \<^verbatim>\<open>updateVideo\<close>; so it is on every job map whose
  records are stored under their own identifiers.
\<close>

theorem processVideo_missing_video_rejects:
  assumes "Map_get videoId (videos (storage w)) = None"
  shows "processVideo_try h videoId w = (Inl (Error ''Video not found''), w)
     \<and> processVideo h videoId w = processVideo_catch h videoId (Error ''Video not found'') w
     \<and> (\<exists>e w'. processVideo h videoId w = (Inl e, w')
          \<and> videos (storage w') = videos (storage w)
          \<and> summaries (storage w') = summaries (storage w)
          \<and> Map_keys (processingJobs (storage w')) = Map_keys (processingJobs (storage w))
          \<and> uuid_drawn w' = uuid_drawn w
          \<and> calls w' = calls w
          \<and> timers w' = timers w
          \<and> (getProcessingJobByVideoId videoId w = (Inr None, w) \<longrightarrow>
               e = Error ''Video not found'' \<and> w' = w
               \<and> updateVideo videoId (no_video_updates\<lparr>pv_status := Some ''failed''\<rparr>) w = (Inl e, w))
          \<and> (wf_map j_id (processingJobs (storage w)) \<longrightarrow> e = Error ''Video not found''))"
proof -
  from assms have body: "processVideo_try h videoId w = (Inl (Error ''Video not found''), w)"
    by (simp add: processVideo_try_def exec)
  then have handler:
    "processVideo h videoId w = processVideo_catch h videoId (Error ''Video not found'') w"
    by (rule processVideo_of_try_failure)
  show ?thesis
  proof (cases "find (\<lambda>job. j_videoId job = videoId) (Map_values (processingJobs (storage w)))")
    case None
    with assms body handler show ?thesis
      by (simp add: processVideo_catch_def exec)
  next
    case (Some job)
    have known: "Map_get (j_id job) (processingJobs (storage w)) = Some job"
      if "wf_map j_id (processingJobs (storage w))"
      using that Some by (rule wf_find_get)
    show ?thesis
    proof (cases "Map_get (j_id job) (processingJobs (storage w))")
      case None
      with assms body handler Some known show ?thesis
        by (auto simp: processVideo_catch_def exec)
    next
      case stored: (Some job')
      with assms body handler Some show ?thesis
        by (auto simp: processVideo_catch_def exec Map_keys_set_present)
    qed
  qed
qed

theorem processVideo_missing_video_rejects_witness:
  "Map_get ''v1'' (videos (storage world_empty)) = None
   \<and> getProcessingJobByVideoId ''v1'' world_empty = (Inr None, world_empty)
   \<and> wf_map j_id (processingJobs (storage world_empty))
   \<and> processVideo host_ok ''v1'' world_empty = (Inl (Error ''Video not found''), world_empty)"
proof -
  have absent: "Map_get ''v1'' (videos (storage world_empty)) = None"
    by (simp add: scenario)
  have no_job: "getProcessingJobByVideoId ''v1'' world_empty = (Inr None, world_empty)"
    by (simp add: getProcessingJobByVideoId_def scenario)
  have wf: "wf_map j_id (processingJobs (storage world_empty))"
    by (simp add: wf_map_def scenario)
  from processVideo_missing_video_rejects [OF absent, of host_ok] absent no_job wf show ?thesis
    by auto
qed

subsection \<open>A run that fails\<close>

lemma triple_await:
  assumes "triple P m Q E" and "\<And>x. triple (Q x) (f x) R E"
  shows "triple P (await m f) R E"
  unfolding triple_def await_def
proof (intro allI impI)
  fix w assume "P w"
  obtain r w1 where m: "m w = (r, w1)" by (cases "m w")
  show "case (case m w of (Inl e, w') \<Rightarrow> (Inl e, w') | (Inr x, w') \<Rightarrow> f x w') of
          (Inl e, w') \<Rightarrow> E e w' | (Inr x, w') \<Rightarrow> R x w'"
  proof (cases r)
    case (Inl e)
    with assms(1) \<open>P w\<close> m show ?thesis
      by (auto simp: triple_def)
  next
    case (Inr x)
    with assms(1) \<open>P w\<close> m have "Q x w1"
      by (auto simp: triple_def)
    with assms(2) [of x] have "case f x w1 of (Inl e, w') \<Rightarrow> E e w' | (Inr y, w') \<Rightarrow> R y w'"
      by (simp add: triple_def)
    with m Inr show ?thesis by simp
  qed
qed

lemma triple_of_preserves: "preserves I m \<Longrightarrow> triple I m (\<lambda>_ _. True) (\<lambda>_. I)"
  by (auto simp: preserves_def triple_def split: prod.splits sum.splits)

lemma preserves_await:
  "preserves I m \<Longrightarrow> (\<And>x. preserves I (f x)) \<Longrightarrow> preserves I (await m f)"
  unfolding preserves_def by (rule triple_await)

lemma preserves_option:
  "preserves I a \<Longrightarrow> (\<And>x. preserves I (b x)) \<Longrightarrow>
     preserves I (case opt of None \<Rightarrow> a | Some x \<Rightarrow> b x)"
  by (cases opt) simp_all

lemma preserves_Let: "preserves I (f v) \<Longrightarrow> preserves I (Let v f)"
  by simp

lemma preserves_resolve: "preserves I (resolve x)"
  by (simp add: preserves_def triple_def resolve_def)

lemma preserves_throw: "preserves I (throw e)"
  by (simp add: preserves_def triple_def throw_def)

lemma preservesI:
  assumes "\<And>w. I w \<Longrightarrow> I (snd (m w))"
  shows "preserves I m"
  unfolding preserves_def triple_def
proof (intro allI impI)
  fix w assume "I w"
  then have "I (snd (m w))" by (rule assms)
  then show "case m w of (Inl e, w') \<Rightarrow> I w' | (Inr x, w') \<Rightarrow> I w'"
    by (cases "m w") (auto split: sum.splits)
qed

lemma find_Map_set_some:
  "P r' \<Longrightarrow> \<exists>found. find P (Map_values (Map_set k r' m)) = Some found"
  by (induction m) (auto simp: Map_values_def)

lemma find_Map_set_kept:
  "find P (Map_values m) \<noteq> None \<Longrightarrow> Map_get k m = Some r \<Longrightarrow> (P r \<Longrightarrow> P r') \<Longrightarrow>
     find P (Map_values (Map_set k r' m)) \<noteq> None"
  by (induction m) (auto simp: Map_values_def Map_get_def split: if_splits)

lemma list_all_Map_set:
  "list_all Q (Map_values m) \<Longrightarrow> Q r' \<Longrightarrow> list_all Q (Map_values (Map_set k r' m))"
  by (induction m) (auto simp: Map_values_def)

lemma list_all_Map_get:
  "list_all Q (Map_values m) \<Longrightarrow> Map_get k m = Some r \<Longrightarrow> Q r"
  by (auto simp: Map_values_def Map_get_def list_all_iff dest!: map_of_SomeD)

text \<open>The steps of the pipeline keep both assertions.\<close>

lemma recorded_invoke: "preserves (job_recorded v) (invoke c outcome)"
  by (rule preservesI) (simp add: invoke_def job_recorded_def)

lemma recorded_setTimeout: "preserves (job_recorded v) (setTimeout files ms)"
  by (rule preservesI) (simp add: setTimeout_def job_recorded_def)

lemma recorded_updateVideo: "preserves (job_recorded v) (updateVideo k u)"
  by (rule preservesI) (auto simp: updateVideo_run job_recorded_def Map_get_set split: option.splits)

lemma recorded_getSummaryByVideoId: "preserves (job_recorded v) (getSummaryByVideoId k)"
  by (rule preservesI) (simp add: getSummaryByVideoId_def)

lemma recorded_createSummary: "preserves (job_recorded v) (createSummary h d)"
  by (rule preservesI) (simp add: createSummary_run job_recorded_def)

lemma recorded_updateSummary: "preserves (job_recorded v) (updateSummary k u)"
  by (rule preservesI) (auto simp: updateSummary_run job_recorded_def split: option.splits)

lemma recorded_updateProcessingJob:
  assumes "pj_id u = None" and "pj_videoId u = None"
  shows "preserves (job_recorded v) (updateProcessingJob h k u)"
proof (rule preservesI)
  fix w assume inv: "job_recorded v w"
  show "job_recorded v (snd (updateProcessingJob h k u w))"
  proof (cases "Map_get k (processingJobs (storage w))")
    case None
    with inv show ?thesis by (simp add: updateProcessingJob_run)
  next
    case (Some job)
    let ?new = "(spread_job job u)\<lparr>j_updatedAt := Some (date_source h (dates_read w))\<rparr>"
    from inv have wf: "wf_map j_id (processingJobs (storage w))"
      by (simp add: job_recorded_def)
    from wf Some have "j_id job = k" by (rule wf_get_key)
    with assms have key: "j_id ?new = k" and same: "j_videoId ?new = j_videoId job"
      by (simp_all add: spread_job_def)
    from wf key have "wf_map j_id (Map_set k ?new (processingJobs (storage w)))"
      by (rule wf_map_set)
    moreover from inv Some same
    have "find (\<lambda>job. j_videoId job = v)
        (Map_values (Map_set k ?new (processingJobs (storage w)))) \<noteq> None"
      by (intro find_Map_set_kept [where r = job]) (simp_all add: job_recorded_def)
    ultimately show ?thesis
      using inv Some by (simp add: updateProcessingJob_run job_recorded_def)
  qed
qed

lemma only_invoke: "preserves (only_job i v) (invoke c outcome)"
  by (rule preservesI) (simp add: invoke_def only_job_def)

lemma only_setTimeout: "preserves (only_job i v) (setTimeout files ms)"
  by (rule preservesI) (simp add: setTimeout_def only_job_def)

lemma only_updateVideo: "preserves (only_job i v) (updateVideo k u)"
  by (rule preservesI) (auto simp: updateVideo_run only_job_def split: option.splits)

lemma only_getSummaryByVideoId: "preserves (only_job i v) (getSummaryByVideoId k)"
  by (rule preservesI) (simp add: getSummaryByVideoId_def)

lemma only_createSummary: "preserves (only_job i v) (createSummary h d)"
  by (rule preservesI) (simp add: createSummary_run only_job_def)

lemma only_updateSummary: "preserves (only_job i v) (updateSummary k u)"
  by (rule preservesI) (auto simp: updateSummary_run only_job_def split: option.splits)

lemma only_updateProcessingJob:
  assumes "pj_id u = None" and "pj_videoId u = None"
  shows "preserves (only_job i v) (updateProcessingJob h k u)"
proof (rule preservesI)
  fix w assume inv: "only_job i v w"
  show "only_job i v (snd (updateProcessingJob h k u w))"
  proof (cases "Map_get k (processingJobs (storage w))")
    case None
    with inv show ?thesis by (simp add: updateProcessingJob_run)
  next
    case (Some job)
    let ?new = "(spread_job job u)\<lparr>j_updatedAt := Some (date_source h (dates_read w))\<rparr>"
    from inv Some have "j_videoId job = v \<longrightarrow> j_id job = i"
      unfolding only_job_def by (rule list_all_Map_get)
    with assms have "j_videoId ?new = v \<longrightarrow> j_id ?new = i"
      by (simp add: spread_job_def)
    with inv have "list_all (\<lambda>job. j_videoId job = v \<longrightarrow> j_id job = i)
        (Map_values (Map_set k ?new (processingJobs (storage w))))"
      unfolding only_job_def by (rule list_all_Map_set)
    with Some show ?thesis
      by (simp add: updateProcessingJob_run only_job_def)
  qed
qed

lemmas pipeline_steps = preserves_await preserves_option preserves_Let preserves_resolve
  preserves_throw

lemmas recorded_steps = recorded_invoke recorded_setTimeout recorded_updateVideo
  recorded_getSummaryByVideoId recorded_createSummary recorded_updateSummary
  recorded_updateProcessingJob

lemmas only_steps = only_invoke only_setTimeout only_updateVideo only_getSummaryByVideoId
  only_createSummary only_updateSummary only_updateProcessingJob

text \<open>
  Wherever the body stops for a stored video, the video is still stored, a job for it
  is recorded, and the job map is well formed.
\<close>

lemma try_failure_recorded:
  "triple (\<lambda>w. wf_map j_id (processingJobs (storage w)) \<and> Map_get videoId (videos (storage w)) \<noteq> None)
     (processVideo_try h videoId) (\<lambda>_ _. True) (\<lambda>_. job_recorded videoId)"
  unfolding processVideo_try_def
  apply (rule triple_await [where Q = "\<lambda>found w. found \<noteq> None
            \<and> wf_map j_id (processingJobs (storage w))
            \<and> Map_get videoId (videos (storage w)) \<noteq> None"])
   apply (simp add: triple_def getVideo_run)
  subgoal for found
    apply (cases found)
     apply (simp add: triple_def)
    apply (simp only: option.case)
    apply (rule triple_await [where Q = "\<lambda>_. job_recorded videoId"])
     apply (simp add: triple_def createProcessingJob_run job_recorded_def wf_map_set
        find_Map_set_some)
    apply (rule triple_of_preserves)
    apply (intro pipeline_steps recorded_steps; simp add: no_job_updates_def)
    done
  done

lemma find_None_list_all: "find P xs = None \<Longrightarrow> list_all (\<lambda>x. P x \<longrightarrow> Q x) xs"
  by (induction xs) (auto split: if_splits)

text \<open>
  When no job was recorded for the video before the run, every job recorded for it
  where the body stops is the job the run created.
\<close>

lemma try_failure_only:
  "triple (\<lambda>w. Map_get videoId (videos (storage w)) \<noteq> None
            \<and> find (\<lambda>job. j_videoId job = videoId) (Map_values (processingJobs (storage w))) = None
            \<and> uuid_source h (uuid_drawn w) = i)
     (processVideo_try h videoId) (\<lambda>_ _. True) (\<lambda>_. only_job i videoId)"
  unfolding processVideo_try_def
  apply (rule triple_await [where Q = "\<lambda>found w. found \<noteq> None
            \<and> find (\<lambda>job. j_videoId job = videoId) (Map_values (processingJobs (storage w))) = None
            \<and> uuid_source h (uuid_drawn w) = i"])
   apply (simp add: triple_def getVideo_run)
  subgoal for found
    apply (cases found)
     apply (simp add: triple_def)
    apply (simp only: option.case)
    apply (rule triple_await [where Q = "\<lambda>_. only_job i videoId"])
     apply (simp add: triple_def createProcessingJob_run only_job_def list_all_Map_set
        find_None_list_all)
    apply (rule triple_of_preserves)
    apply (intro pipeline_steps only_steps; simp add: no_job_updates_def)
    done
  done

lemma try_failure_state:
  assumes "Map_get videoId (videos (storage w)) = Some video"
    and "wf_map j_id (processingJobs (storage w))"
    and "processVideo_try h videoId w = (Inl e, w1)"
  shows "job_recorded videoId w1"
  using assms try_failure_recorded [of videoId h]
  by (auto simp: triple_def)

lemma try_failure_own_job:
  assumes "Map_get videoId (videos (storage w)) = Some video"
    and "find (\<lambda>job. j_videoId job = videoId) (Map_values (processingJobs (storage w))) = None"
    and "processVideo_try h videoId w = (Inl e, w1)"
    and "find (\<lambda>job. j_videoId job = videoId) (Map_values (processingJobs (storage w1))) = Some job"
  shows "j_id job = uuid_source h (uuid_drawn w)"
proof -
  from assms(1-3) try_failure_only [of videoId h "uuid_source h (uuid_drawn w)"]
  have "only_job (uuid_source h (uuid_drawn w)) videoId w1"
    by (auto simp: triple_def)
  moreover from find_Some_mem [OF assms(4)]
  have "job \<in> set (Map_values (processingJobs (storage w1)))" and "j_videoId job = videoId"
    by simp_all
  ultimately show ?thesis
    by (auto simp: only_job_def list_all_iff)
qed

text \<open>
  The catch handler on a state in which the video is stored and a job is recorded for
  it: it completes, having marked the first job recorded for the video and the video
  as failed, and nothing else.
\<close>

lemma catch_marks_failed:
  assumes "job_recorded videoId w1"
  shows "\<exists>job video1 w2.
       getProcessingJobByVideoId videoId w1 = (Inr (Some job), w1)
     \<and> getVideo videoId w1 = (Inr (Some video1), w1)
     \<and> processVideo_catch h videoId e w1 = (Inr (), w2)
     \<and> getProcessingJobByVideoId videoId w2 =
         (Inr (Some (job\<lparr>j_status := ''failed'', j_error := Some (error_message e),
                        j_updatedAt := Some (date_source h (dates_read w1))\<rparr>)), w2)
     \<and> getProcessingJob (j_id job) w2 =
         (Inr (Some (job\<lparr>j_status := ''failed'', j_error := Some (error_message e),
                        j_updatedAt := Some (date_source h (dates_read w1))\<rparr>)), w2)
     \<and> getVideo videoId w2 = (Inr (Some (video1\<lparr>v_status := ''failed''\<rparr>)), w2)
     \<and> job_writes w2 = job_writes w1 @
         [job\<lparr>j_status := ''failed'', j_error := Some (error_message e),
              j_updatedAt := Some (date_source h (dates_read w1))\<rparr>]
     \<and> summaries (storage w2) = summaries (storage w1)
     \<and> calls w2 = calls w1
     \<and> timers w2 = timers w1
     \<and> uuid_drawn w2 = uuid_drawn w1
     \<and> (\<forall>k. k \<noteq> j_id job \<longrightarrow>
           Map_get k (processingJobs (storage w2)) = Map_get k (processingJobs (storage w1)))
     \<and> (\<forall>k. k \<noteq> videoId \<longrightarrow>
           Map_get k (videos (storage w2)) = Map_get k (videos (storage w1)))"
proof -
  from assms obtain job video1
    where wf: "wf_map j_id (processingJobs (storage w1))"
      and video: "Map_get videoId (videos (storage w1)) = Some video1"
      and found: "find (\<lambda>job. j_videoId job = videoId)
                    (Map_values (processingJobs (storage w1))) = Some job"
    by (auto simp: job_recorded_def)
  let ?failed = "job\<lparr>j_status := ''failed'', j_error := Some (error_message e),
                     j_updatedAt := Some (date_source h (dates_read w1))\<rparr>"
  from wf found have stored: "Map_get (j_id job) (processingJobs (storage w1)) = Some job"
    by (rule wf_find_get)
  from find_Some_mem [OF found] have "j_videoId ?failed = videoId"
    by simp
  with wf found have shown: "find (\<lambda>job. j_videoId job = videoId)
      (Map_values (Map_set (j_id job) ?failed (processingJobs (storage w1)))) = Some ?failed"
    by (intro find_Map_set_same [where key_of = j_id])
  from video found stored shown show ?thesis
    by (simp add: processVideo_catch_def exec)
qed

text \<open>
  C2, as the code has it. For a stored video and a well-formed job map: when the body
  of \<^verbatim>\<open>processVideo\<close> throws, the handler runs once, on the state in which the body
  stopped, and the promise is fulfilled. The job that the lookup by the video's
  identifier returns in that state is afterwards the same record with status
  \<^verbatim>\<open>failed\<close>, the captured message as \<^verbatim>\<open>error\<close> and a new \<^verbatim>\<open>updatedAt\<close>; the video is
  the same record with status \<^verbatim>\<open>failed\<close>; this one job write is the only one the
  handler makes; it calls no service, sets no timer, draws no identifier, and leaves
  the summaries, the other jobs and the other videos alone. When no job was recorded
  for the video before the run, the job marked is the one the run created.
\<close>

theorem pipeline_failure_marks_failed:
  assumes stored: "Map_get videoId (videos (storage w)) = Some video"
    and wf: "wf_map j_id (processingJobs (storage w))"
    and fails: "processVideo_try h videoId w = (Inl e, w1)"
  shows "\<exists>job video1 w2.
       processVideo h videoId w = (Inr (), w2)
     \<and> processVideo_catch h videoId e w1 = (Inr (), w2)
     \<and> getProcessingJobByVideoId videoId w1 = (Inr (Some job), w1)
     \<and> getVideo videoId w1 = (Inr (Some video1), w1)
     \<and> getProcessingJobByVideoId videoId w2 =
         (Inr (Some (job\<lparr>j_status := ''failed'', j_error := Some (error_message e),
                        j_updatedAt := Some (date_source h (dates_read w1))\<rparr>)), w2)
     \<and> getProcessingJob (j_id job) w2 =
         (Inr (Some (job\<lparr>j_status := ''failed'', j_error := Some (error_message e),
                        j_updatedAt := Some (date_source h (dates_read w1))\<rparr>)), w2)
     \<and> getVideo videoId w2 = (Inr (Some (video1\<lparr>v_status := ''failed''\<rparr>)), w2)
     \<and> job_writes w2 = job_writes w1 @
         [job\<lparr>j_status := ''failed'', j_error := Some (error_message e),
              j_updatedAt := Some (date_source h (dates_read w1))\<rparr>]
     \<and> summaries (storage w2) = summaries (storage w1)
     \<and> calls w2 = calls w1
     \<and> timers w2 = timers w1
     \<and> uuid_drawn w2 = uuid_drawn w1
     \<and> (\<forall>k. k \<noteq> j_id job \<longrightarrow>
           Map_get k (processingJobs (storage w2)) = Map_get k (processingJobs (storage w1)))
     \<and> (\<forall>k. k \<noteq> videoId \<longrightarrow>
           Map_get k (videos (storage w2)) = Map_get k (videos (storage w1)))
     \<and> (getProcessingJobByVideoId videoId w = (Inr None, w) \<longrightarrow>
           j_id job = uuid_source h (uuid_drawn w))"
proof -
  from stored wf fails have "job_recorded videoId w1"
    by (rule try_failure_state)
  from catch_marks_failed [OF this, of h e] obtain job video1 w2
    where handler: "processVideo_catch h videoId e w1 = (Inr (), w2)"
      and found: "getProcessingJobByVideoId videoId w1 = (Inr (Some job), w1)"
      and rest: "getVideo videoId w1 = (Inr (Some video1), w1)"
        "getProcessingJobByVideoId videoId w2 =
           (Inr (Some (job\<lparr>j_status := ''failed'', j_error := Some (error_message e),
                          j_updatedAt := Some (date_source h (dates_read w1))\<rparr>)), w2)"
        "getProcessingJob (j_id job) w2 =
           (Inr (Some (job\<lparr>j_status := ''failed'', j_error := Some (error_message e),
                          j_updatedAt := Some (date_source h (dates_read w1))\<rparr>)), w2)"
        "getVideo videoId w2 = (Inr (Some (video1\<lparr>v_status := ''failed''\<rparr>)), w2)"
        "job_writes w2 = job_writes w1 @
           [job\<lparr>j_status := ''failed'', j_error := Some (error_message e),
                j_updatedAt := Some (date_source h (dates_read w1))\<rparr>]"
        "summaries (storage w2) = summaries (storage w1)"
        "calls w2 = calls w1"
        "timers w2 = timers w1"
        "uuid_drawn w2 = uuid_drawn w1"
        "\<forall>k. k \<noteq> j_id job \<longrightarrow>
           Map_get k (processingJobs (storage w2)) = Map_get k (processingJobs (storage w1))"
        "\<forall>k. k \<noteq> videoId \<longrightarrow>
           Map_get k (videos (storage w2)) = Map_get k (videos (storage w1))"
    by blast
  from fails handler have promise: "processVideo h videoId w = (Inr (), w2)"
    by (simp add: processVideo_of_try_failure)
  have own: "j_id job = uuid_source h (uuid_drawn w)"
    if "getProcessingJobByVideoId videoId w = (Inr None, w)"
  proof (rule try_failure_own_job [OF stored _ fails])
    from that show "find (\<lambda>job. j_videoId job = videoId)
        (Map_values (processingJobs (storage w))) = None"
      by (simp add: getProcessingJobByVideoId_def)
    from found show "find (\<lambda>job. j_videoId job = videoId)
        (Map_values (processingJobs (storage w1))) = Some job"
      by (simp add: getProcessingJobByVideoId_def)
  qed
  from promise handler found rest own show ?thesis
    by blast
qed

theorem pipeline_failure_marks_failed_witness:
  "Map_get ''v1'' (videos (storage world_submitted)) = Some video_v1
   \<and> wf_map j_id (processingJobs (storage world_submitted))
   \<and> fst (processVideo_try host_no_transcript ''v1'' world_submitted) =
       Inl (Error ''Failed to transcribe audio: timeout'')
   \<and> fst (processVideo host_no_transcript ''v1'' world_submitted) = Inr ()
   \<and> map_option (\<lambda>job. (j_id job, j_status job, j_error job, j_progress job, j_currentStep job))
        (find (\<lambda>job. j_videoId job = ''v1'')
           (Map_values (processingJobs (storage (snd (processVideo host_no_transcript ''v1'' world_submitted)))))) =
       Some (''uuid-'', ''failed'', Some ''Failed to transcribe audio: timeout'', Some 30,
             Some ''transcribing'')
   \<and> map_option v_status
        (Map_get ''v1'' (videos (storage (snd (processVideo host_no_transcript ''v1'' world_submitted))))) =
       Some ''failed''"
proof -
  let ?e = "Error ''Failed to transcribe audio: timeout''"
  let ?w1 = "snd (processVideo_try host_no_transcript ''v1'' world_submitted)"
  let ?w2 = "snd (processVideo host_no_transcript ''v1'' world_submitted)"
  have stored: "Map_get ''v1'' (videos (storage world_submitted)) = Some video_v1"
    by (simp add: scenario)
  have wf: "wf_map j_id (processingJobs (storage world_submitted))"
    by (simp add: wf_map_def scenario)
  have thrown: "fst (processVideo_try host_no_transcript ''v1'' world_submitted) = Inl ?e"
    by (simp add: processVideo_try_def exec scenario)
  then have fails: "processVideo_try host_no_transcript ''v1'' world_submitted = (Inl ?e, ?w1)"
    by (simp add: prod_eq_iff)
  have at_catch: "map_option (\<lambda>job. (j_id job, j_progress job, j_currentStep job))
      (find (\<lambda>job. j_videoId job = ''v1'') (Map_values (processingJobs (storage ?w1)))) =
      Some (''uuid-'', Some 30, Some ''transcribing'')"
    by (simp add: processVideo_try_def exec scenario)
  from pipeline_failure_marks_failed [OF stored wf fails] obtain job video1 w2
    where promise: "processVideo host_no_transcript ''v1'' world_submitted = (Inr (), w2)"
      and before: "getProcessingJobByVideoId ''v1'' ?w1 = (Inr (Some job), ?w1)"
      and after: "getProcessingJobByVideoId ''v1'' w2 =
           (Inr (Some (job\<lparr>j_status := ''failed'', j_error := Some (error_message ?e),
                          j_updatedAt := Some (date_source host_no_transcript (dates_read ?w1))\<rparr>)), w2)"
      and video: "getVideo ''v1'' w2 = (Inr (Some (video1\<lparr>v_status := ''failed''\<rparr>)), w2)"
    by blast
  from promise have w2: "?w2 = w2" and fulfilled: "fst (processVideo host_no_transcript ''v1'' world_submitted) = Inr ()"
    by simp_all
  from before at_catch have job: "(j_id job, j_progress job, j_currentStep job) =
      (''uuid-'', Some 30, Some ''transcribing'')"
    by (simp add: getProcessingJobByVideoId_def)
  from after job have "map_option (\<lambda>job. (j_id job, j_status job, j_error job, j_progress job, j_currentStep job))
        (find (\<lambda>job. j_videoId job = ''v1'') (Map_values (processingJobs (storage w2)))) =
       Some (''uuid-'', ''failed'', Some ''Failed to transcribe audio: timeout'', Some 30,
             Some ''transcribing'')"
    by (simp add: getProcessingJobByVideoId_def)
  moreover from video have "map_option v_status (Map_get ''v1'' (videos (storage w2))) = Some ''failed''"
    by (simp add: getVideo_def)
  ultimately show ?thesis
    using stored wf thrown fulfilled by (simp add: w2)
qed

text \<open>
  C2 as stated fails at step 1: for an identifier under which no video is stored the
  body throws, and the promise of \<^verbatim>\<open>processVideo\<close> rejects; no video and no job is
  marked, the store is as it was.
\<close>

theorem pipeline_step1_failure_counterexample:
  "fst (processVideo_try host_ok ''v9'' world_running) = Inl (Error ''Video not found'')
   \<and> processVideo host_ok ''v9'' world_running = (Inl (Error ''Video not found''), world_running)
   \<and> map (\<lambda>(k, video). (k, v_status video)) (videos (storage world_running)) =
       [(''v1'', ''processing'')]
   \<and> map (\<lambda>(k, job). (k, j_videoId job, j_status job)) (processingJobs (storage world_running)) =
       [(''j1'', ''v1'', ''processing'')]"
  by (simp add: processVideo_def try_catch_def processVideo_try_def processVideo_catch_def exec
        scenario)

subsection \<open>A video without a source\<close>

lemma try_no_source:
  assumes "Map_get videoId (videos (storage w)) = Some video"
    and "v_originalUrl video = None" and "v_fileName video = None"
  shows "\<exists>w1. processVideo_try h videoId w = (Inl (Error ''No video source available''), w1)
     \<and> calls w1 = calls w
     \<and> timers w1 = timers w
     \<and> videos (storage w1) = videos (storage w)
     \<and> summaries (storage w1) = summaries (storage w)"
  using assms by (simp add: processVideo_try_def exec)

text \<open>
  C3. For a stored video whose source URL and file name are both null, on a
  well-formed job map: the body of \<^verbatim>\<open>processVideo\<close> throws the no-source error, the
  promise is fulfilled, the job that the lookup by the video's identifier then returns
  has status \<^verbatim>\<open>failed\<close> and that error's message, the video is the same record with
  status \<^verbatim>\<open>failed\<close>, and the list of service invocations is as it was before the run:
  no acquisition, file, transcription, analysis, summary or speech call was made. The
  summaries are untouched. When no job was recorded for the video before the run, the
  failed job is the one the run created.
\<close>

theorem pipeline_no_source_fails:
  assumes stored: "Map_get videoId (videos (storage w)) = Some video"
    and url: "v_originalUrl video = None"
    and upload: "v_fileName video = None"
    and wf: "wf_map j_id (processingJobs (storage w))"
  shows "\<exists>w1 job w'.
       processVideo_try h videoId w = (Inl (Error ''No video source available''), w1)
     \<and> processVideo h videoId w = (Inr (), w')
     \<and> getProcessingJobByVideoId videoId w' = (Inr (Some job), w')
     \<and> j_status job = ''failed''
     \<and> j_error job = Some ''No video source available''
     \<and> j_videoId job = videoId
     \<and> getVideo videoId w' = (Inr (Some (video\<lparr>v_status := ''failed''\<rparr>)), w')
     \<and> calls w' = calls w
     \<and> timers w' = timers w
     \<and> summaries (storage w') = summaries (storage w)
     \<and> (getProcessingJobByVideoId videoId w = (Inr None, w) \<longrightarrow>
           j_id job = uuid_source h (uuid_drawn w))"
proof -
  let ?e = "Error ''No video source available''"
  from try_no_source [OF stored url upload, of h] obtain w1
    where fails: "processVideo_try h videoId w = (Inl ?e, w1)"
      and same: "calls w1 = calls w" "timers w1 = timers w"
        "videos (storage w1) = videos (storage w)" "summaries (storage w1) = summaries (storage w)"
    by blast
  from stored wf fails have "job_recorded videoId w1"
    by (rule try_failure_state)
  from catch_marks_failed [OF this, of h ?e] obtain job video1 w2
    where handler: "processVideo_catch h videoId ?e w1 = (Inr (), w2)"
      and found: "getProcessingJobByVideoId videoId w1 = (Inr (Some job), w1)"
      and video1: "getVideo videoId w1 = (Inr (Some video1), w1)"
      and after: "getProcessingJobByVideoId videoId w2 =
           (Inr (Some (job\<lparr>j_status := ''failed'', j_error := Some (error_message ?e),
                          j_updatedAt := Some (date_source h (dates_read w1))\<rparr>)), w2)"
      and video2: "getVideo videoId w2 = (Inr (Some (video1\<lparr>v_status := ''failed''\<rparr>)), w2)"
      and kept: "summaries (storage w2) = summaries (storage w1)" "calls w2 = calls w1"
        "timers w2 = timers w1"
    by blast
  let ?failed = "job\<lparr>j_status := ''failed'', j_error := Some (error_message ?e),
                     j_updatedAt := Some (date_source h (dates_read w1))\<rparr>"
  from fails handler have promise: "processVideo h videoId w = (Inr (), w2)"
    by (simp add: processVideo_of_try_failure)
  from video1 stored same have "video1 = video"
    by (simp add: getVideo_def)
  with video2 have marked: "getVideo videoId w2 = (Inr (Some (video\<lparr>v_status := ''failed''\<rparr>)), w2)"
    by simp
  from found have at_catch: "find (\<lambda>job. j_videoId job = videoId)
      (Map_values (processingJobs (storage w1))) = Some job"
    by (simp add: getProcessingJobByVideoId_def)
  from find_Some_mem [OF at_catch] have for_video: "j_videoId ?failed = videoId"
    by simp
  have own: "j_id ?failed = uuid_source h (uuid_drawn w)"
    if "getProcessingJobByVideoId videoId w = (Inr None, w)"
  proof -
    from that have "find (\<lambda>job. j_videoId job = videoId)
        (Map_values (processingJobs (storage w))) = None"
      by (simp add: getProcessingJobByVideoId_def)
    from try_failure_own_job [OF stored this fails at_catch] show ?thesis
      by simp
  qed
  have "processVideo_try h videoId w = (Inl ?e, w1)
     \<and> processVideo h videoId w = (Inr (), w2)
     \<and> getProcessingJobByVideoId videoId w2 = (Inr (Some ?failed), w2)
     \<and> j_status ?failed = ''failed''
     \<and> j_error ?failed = Some ''No video source available''
     \<and> j_videoId ?failed = videoId
     \<and> getVideo videoId w2 = (Inr (Some (video\<lparr>v_status := ''failed''\<rparr>)), w2)
     \<and> calls w2 = calls w
     \<and> timers w2 = timers w
     \<and> summaries (storage w2) = summaries (storage w)
     \<and> (getProcessingJobByVideoId videoId w = (Inr None, w) \<longrightarrow>
           j_id ?failed = uuid_source h (uuid_drawn w))"
    using fails promise after marked same kept own for_video by simp
  then show ?thesis
    by blast
qed

theorem pipeline_no_source_fails_witness:
  "Map_get ''v1'' (videos (storage world_no_source)) = Some (video_v1\<lparr>v_originalUrl := None\<rparr>)
   \<and> v_originalUrl (video_v1\<lparr>v_originalUrl := None\<rparr>) = None
   \<and> v_fileName (video_v1\<lparr>v_originalUrl := None\<rparr>) = None
   \<and> wf_map j_id (processingJobs (storage world_no_source))
   \<and> getProcessingJobByVideoId ''v1'' world_no_source = (Inr None, world_no_source)
   \<and> fst (processVideo host_ok ''v1'' world_no_source) = Inr ()
   \<and> map_option (\<lambda>job. (j_id job, j_status job, j_error job))
        (find (\<lambda>job. j_videoId job = ''v1'')
           (Map_values (processingJobs (storage (snd (processVideo host_ok ''v1'' world_no_source)))))) =
       Some (''uuid-'', ''failed'', Some ''No video source available'')
   \<and> map_option v_status
        (Map_get ''v1'' (videos (storage (snd (processVideo host_ok ''v1'' world_no_source))))) =
       Some ''failed''
   \<and> calls (snd (processVideo host_ok ''v1'' world_no_source)) = []"
proof -
  have stored: "Map_get ''v1'' (videos (storage world_no_source)) = Some (video_v1\<lparr>v_originalUrl := None\<rparr>)"
    and url: "v_originalUrl (video_v1\<lparr>v_originalUrl := None\<rparr>) = None"
    and upload: "v_fileName (video_v1\<lparr>v_originalUrl := None\<rparr>) = None"
    by (simp_all add: scenario)
  have wf: "wf_map j_id (processingJobs (storage world_no_source))"
    by (simp add: wf_map_def scenario)
  have none: "getProcessingJobByVideoId ''v1'' world_no_source = (Inr None, world_no_source)"
    by (simp add: getProcessingJobByVideoId_def scenario)
  have quiet: "calls world_no_source = []"
    by (simp add: scenario)
  from pipeline_no_source_fails [OF stored url upload wf, of host_ok] none obtain job w'
    where promise: "processVideo host_ok ''v1'' world_no_source = (Inr (), w')"
      and job: "getProcessingJobByVideoId ''v1'' w' = (Inr (Some job), w')"
        "j_status job = ''failed''" "j_error job = Some ''No video source available''"
        "j_id job = uuid_source host_ok (uuid_drawn world_no_source)"
      and video: "getVideo ''v1'' w' = (Inr (Some (video_v1\<lparr>v_originalUrl := None, v_status := ''failed''\<rparr>)), w')"
      and silent: "calls w' = calls world_no_source"
    by auto
  have ident: "uuid_source host_ok (uuid_drawn world_no_source) = ''uuid-''"
    by (simp add: scenario)
  from promise job video silent ident quiet stored url upload wf none show ?thesis
    by (simp add: getProcessingJobByVideoId_def getVideo_def)
qed

section \<open>The invariant holds in every state the operations produce\<close>

text \<open>
  The theorems on failing runs assume a well-formed job map, and the theorem on the
  Summary shown after a run a well-formed summary map. The empty store is well
  formed, and the create operations, \<^verbatim>\<open>processVideo\<close> and the two summary routes keep
  the store well formed: none of them passes an \<^verbatim>\<open>id\<close> among the updates.
\<close>

lemma preserves_try_catch:
  assumes "preserves I m" and "\<And>e. preserves I (handler e)"
  shows "preserves I (try_catch m handler)"
proof (rule preservesI)
  fix w assume "I w"
  obtain r w1 where m: "m w = (r, w1)" by (cases "m w")
  with assms(1) \<open>I w\<close> have "I w1"
    by (auto simp: preserves_def triple_def split: sum.splits)
  show "I (snd (try_catch m handler w))"
  proof (cases r)
    case (Inl e)
    obtain r2 w2 where h: "handler e w1 = (r2, w2)" by (cases "handler e w1")
    with assms(2) [of e] \<open>I w1\<close> have "I w2"
      by (auto simp: preserves_def triple_def split: sum.splits)
    with m Inl h show ?thesis by (simp add: try_catch_def)
  next
    case (Inr x)
    with m \<open>I w1\<close> show ?thesis by (simp add: try_catch_def)
  qed
qed

lemma preserves_snd: "preserves I m \<Longrightarrow> I w \<Longrightarrow> I (snd (m w))"
  by (cases "m w") (auto simp: preserves_def triple_def split: sum.splits)

lemma wf_empty: "wf_storage (storage world_empty)"
  by (simp add: wf_storage_def wf_map_def world_empty_def Map_keys_def)

lemma wf_createVideo: "preserves (\<lambda>w. wf_storage (storage w)) (createVideo h d)"
  by (rule preservesI) (simp add: createVideo_run wf_storage_def wf_map_set)

lemma wf_createSummary: "preserves (\<lambda>w. wf_storage (storage w)) (createSummary h d)"
  by (rule preservesI) (simp add: createSummary_run wf_storage_def wf_map_set)

lemma wf_createProcessingJob: "preserves (\<lambda>w. wf_storage (storage w)) (createProcessingJob h d)"
  by (rule preservesI) (simp add: createProcessingJob_run wf_storage_def wf_map_set)

lemma wf_updateVideo:
  assumes "pv_id u = None"
  shows "preserves (\<lambda>w. wf_storage (storage w)) (updateVideo k u)"
proof (rule preservesI)
  fix w :: world assume wf: "wf_storage (storage w)"
  show "wf_storage (storage (snd (updateVideo k u w)))"
  proof (cases "Map_get k (videos (storage w))")
    case None
    with wf show ?thesis by (simp add: updateVideo_run)
  next
    case (Some video)
    from wf have "wf_map v_id (videos (storage w))" by (simp add: wf_storage_def)
    from wf_get_key [OF this Some] assms have "v_id (spread_video video u) = k"
      by (simp add: spread_video_def)
    with wf Some show ?thesis
      by (simp add: updateVideo_run wf_storage_def wf_map_set)
  qed
qed

lemma wf_updateSummary:
  assumes "ps_id u = None"
  shows "preserves (\<lambda>w. wf_storage (storage w)) (updateSummary k u)"
proof (rule preservesI)
  fix w :: world assume wf: "wf_storage (storage w)"
  show "wf_storage (storage (snd (updateSummary k u w)))"
  proof (cases "Map_get k (summaries (storage w))")
    case None
    with wf show ?thesis by (simp add: updateSummary_run)
  next
    case (Some summary)
    from wf have "wf_map s_id (summaries (storage w))" by (simp add: wf_storage_def)
    from wf_get_key [OF this Some] assms have "s_id (spread_summary summary u) = k"
      by (simp add: spread_summary_def)
    with wf Some show ?thesis
      by (simp add: updateSummary_run wf_storage_def wf_map_set)
  qed
qed

lemma wf_updateProcessingJob:
  assumes "pj_id u = None"
  shows "preserves (\<lambda>w. wf_storage (storage w)) (updateProcessingJob h k u)"
proof (rule preservesI)
  fix w :: world assume wf: "wf_storage (storage w)"
  show "wf_storage (storage (snd (updateProcessingJob h k u w)))"
  proof (cases "Map_get k (processingJobs (storage w))")
    case None
    with wf show ?thesis by (simp add: updateProcessingJob_run)
  next
    case (Some job)
    from wf have "wf_map j_id (processingJobs (storage w))" by (simp add: wf_storage_def)
    from wf_get_key [OF this Some] assms
    have "j_id ((spread_job job u)\<lparr>j_updatedAt := Some (date_source h (dates_read w))\<rparr>) = k"
      by (simp add: spread_job_def)
    with wf Some show ?thesis
      by (simp add: updateProcessingJob_run wf_storage_def wf_map_set)
  qed
qed

lemma wf_reads:
  "preserves (\<lambda>w. wf_storage (storage w)) (getVideo k)"
  "preserves (\<lambda>w. wf_storage (storage w)) (getSummary k)"
  "preserves (\<lambda>w. wf_storage (storage w)) (getSummaryByVideoId k)"
  "preserves (\<lambda>w. wf_storage (storage w)) (getProcessingJobByVideoId k)"
  "preserves (\<lambda>w. wf_storage (storage w)) (invoke c outcome)"
  "preserves (\<lambda>w. wf_storage (storage w)) (setTimeout files ms)"
  "preserves (\<lambda>w. wf_storage (storage w)) (\<lambda>w. (r, w))"
  by (rule preservesI, simp add: getVideo_def getSummary_def getSummaryByVideoId_def
        getProcessingJobByVideoId_def invoke_def setTimeout_def)+

lemmas wf_steps = wf_createVideo wf_createSummary wf_createProcessingJob wf_updateVideo
  wf_updateSummary wf_updateProcessingJob wf_reads

lemma wf_processVideo: "preserves (\<lambda>w. wf_storage (storage w)) (processVideo h videoId)"
  unfolding processVideo_def processVideo_try_def processVideo_catch_def
  by (intro preserves_try_catch pipeline_steps wf_steps;
      simp add: no_job_updates_def no_video_updates_def no_summary_updates_def)

lemma wf_patch_summary:
  assumes "wf_storage (storage w)"
  shows "wf_storage (storage (snd (patch_summary issue ident body w)))"
proof -
  let ?task = "await (\<lambda>w. (summaryUpdateSchema_parse issue body, w)) (\<lambda>content.
      updateSummary ident
        (no_summary_updates\<lparr>ps_content := Some content, ps_isEdited := Some (Some True)\<rparr>))"
  have "preserves (\<lambda>w. wf_storage (storage w)) ?task"
    by (intro pipeline_steps wf_steps; simp add: no_summary_updates_def)
  from preserves_snd [OF this assms]
  show ?thesis
    by (auto simp: patch_summary_def split: prod.splits sum.splits)
qed

lemma wf_regenerate_audio:
  assumes "wf_storage (storage w)"
  shows "wf_storage (storage (snd (regenerate_audio h ident w)))"
proof -
  let ?task = "await (getSummary ident) (\<lambda>found.
      case found of
        None \<Rightarrow> resolve (Status 404 ''Summary not found'')
      | Some summary \<Rightarrow>
          await (invoke (GenerateSpeech (s_content summary) (s_voiceId summary) (s_speechSpeed summary))
                   (generateSpeech h (s_content summary) (s_voiceId summary) (s_speechSpeed summary)))
                (\<lambda>speechBuffer.
          let audioOutputPath =
                path_join h [cwd h, ''temp'', s_videoId summary @ ''_speech_updated.mp3''] in
          await (invoke (WriteFile audioOutputPath speechBuffer)
                   (writeFile h audioOutputPath speechBuffer)) (\<lambda>_.
          await (updateSummary (s_id summary)
                   (no_summary_updates\<lparr>ps_audioUrl := Some (Some audioOutputPath)\<rparr>))
                (\<lambda>updatedSummary.
          resolve (Json updatedSummary)))))"
  have "preserves (\<lambda>w. wf_storage (storage w)) ?task"
    by (intro pipeline_steps wf_steps; simp add: no_summary_updates_def)
  from preserves_snd [OF this assms]
  show ?thesis
    by (auto simp: regenerate_audio_def split: prod.splits sum.splits)
qed

text \<open>
  Likewise for the identifiers: in the empty store no key is held, and the create
  operations and \<^verbatim>\<open>processVideo\<close> keep every key of the store among the identifiers
  the generator has returned (\<^verbatim>\<open>createVideo\<close>: see the theorem on it).
\<close>

lemma ids_empty: "ids_drawn h world_empty"
  by (simp add: ids_drawn_def world_empty_def Map_keys_def)

lemma ids_createSummary: "preserves (ids_drawn h) (createSummary h d)"
  by (rule preservesI) (auto simp: createSummary_run ids_drawn_def Map_keys_set)

lemma ids_createProcessingJob: "preserves (ids_drawn h) (createProcessingJob h d)"
  by (rule preservesI) (auto simp: createProcessingJob_run ids_drawn_def Map_keys_set)

lemma ids_updateVideo: "preserves (ids_drawn h) (updateVideo k u)"
  by (rule preservesI)
    (auto simp: updateVideo_run ids_drawn_def Map_keys_set_present split: option.splits)

lemma ids_updateSummary: "preserves (ids_drawn h) (updateSummary k u)"
  by (rule preservesI)
    (auto simp: updateSummary_run ids_drawn_def Map_keys_set_present split: option.splits)

lemma ids_updateProcessingJob: "preserves (ids_drawn h) (updateProcessingJob h' k u)"
  by (rule preservesI)
    (auto simp: updateProcessingJob_run ids_drawn_def Map_keys_set_present split: option.splits)

lemma ids_reads:
  "preserves (ids_drawn h) (getVideo k)"
  "preserves (ids_drawn h) (getSummaryByVideoId k)"
  "preserves (ids_drawn h) (getProcessingJobByVideoId k)"
  "preserves (ids_drawn h) (invoke c outcome)"
  "preserves (ids_drawn h) (setTimeout files ms)"
  by (rule preservesI, simp add: getVideo_def getSummaryByVideoId_def
        getProcessingJobByVideoId_def invoke_def setTimeout_def ids_drawn_def)+

lemma ids_processVideo: "preserves (ids_drawn h) (processVideo h videoId)"
  unfolding processVideo_def processVideo_try_def processVideo_catch_def
  by (intro preserves_try_catch pipeline_steps ids_createSummary ids_createProcessingJob
        ids_updateVideo ids_updateSummary ids_updateProcessingJob ids_reads)

end
